theory Spec2Isabelle
  imports Complex_Main "HOL-Library.Word" "HOL-Library.Sublist"
begin

unbundle bit_operations_syntax

section \<open>Buffers\<close>

text \<open>
  A \<^verbatim>\<open>Buffer\<close> is a list of bytes. Every function of \<^verbatim>\<open>useOmron.ts\<close> that takes a
  base64 string starts with \<^verbatim>\<open>Buffer.from(s, 'base64')\<close>; the model takes the decoded
  bytes. A read past the end of a buffer throws a \<^verbatim>\<open>RangeError\<close>: the reads return
  \<open>Inl RangeError\<close> there (\<open>BleError\<close> is what a call of the BLE library throws).
  JavaScript numbers that hold integers are \<open>int\<close>, buffer offsets are \<open>nat\<close>.
\<close>

type_synonym buffer = "8 word list"

datatype js_error = RangeError | BleError

definition bindE :: "'e + 'a \<Rightarrow> ('a \<Rightarrow> 'e + 'b) \<Rightarrow> 'e + 'b" where
  "bindE m f = (case m of Inl e \<Rightarrow> Inl e | Inr x \<Rightarrow> f x)"

definition readUInt8 :: "buffer \<Rightarrow> nat \<Rightarrow> js_error + int" where
  "readUInt8 buffer offset =
     (if offset + 1 \<le> length buffer then Inr (uint (buffer ! offset)) else Inl RangeError)"

definition readUInt16LE :: "buffer \<Rightarrow> nat \<Rightarrow> js_error + int" where
  "readUInt16LE buffer offset =
     (if offset + 2 \<le> length buffer
      then Inr (uint (buffer ! offset) OR push_bit 8 (uint (buffer ! (offset + 1))))
      else Inl RangeError)"

section \<open>JavaScript numbers\<close>

text \<open>
  A \<^verbatim>\<open>number\<close> that results from floating-point arithmetic is kept as the term that
  computes it, so that no rounding is lost or invented: \<open>FNum\<close> is an integer-valued
  number, \<open>FLit\<close> a decimal literal of the source (\<^verbatim>\<open>0.005\<close>), \<open>Float32\<close> the value
  of \<^verbatim>\<open>readFloatLE\<close> given by its IEEE-754 binary32 bit pattern, \<open>FPow\<close> is
  \<^verbatim>\<open>Math.pow\<close>, and \<open>FSub\<close>, \<open>FMul\<close>, \<open>FDiv\<close> are the binary64 operations
  \<^verbatim>\<open>-\<close>, \<^verbatim>\<open>*\<close> and \<^verbatim>\<open>/\<close>. What such a term is worth is \<open>number_value\<close> below.
\<close>

datatype js_float =
    Float32 "32 word"
  | FNum int
  | FLit rat
  | FSub js_float js_float
  | FMul js_float js_float
  | FDiv js_float js_float
  | FPow js_float js_float

section \<open>SFLOAT\<close>

text \<open>
  \<^verbatim>\<open>readSFloat\<close> (a closure over the buffer and the running offset in
  \<^verbatim>\<open>parseBloodPressureData\<close>) returns the number
  \<^verbatim>\<open>signedMantissa * Math.pow(10, signedExponent)\<close> and the advanced offset.
\<close>

definition sfloat_of_raw :: "int \<Rightarrow> js_float" where
  "sfloat_of_raw raw =
     (let mantissa = raw AND 0x0fff;
          exponent = drop_bit 12 raw;
          signedMantissa = (if mantissa \<ge> 0x0800 then mantissa - 0x1000 else mantissa);
          signedExponent = (if exponent \<ge> 0x08 then exponent - 0x10 else exponent)
      in FMul (FNum signedMantissa) (FPow (FNum 10) (FNum signedExponent)))"

definition readSFloat :: "buffer \<Rightarrow> nat \<Rightarrow> js_error + (js_float \<times> nat)" where
  "readSFloat buffer offset =
     bindE (readUInt16LE buffer offset) (\<lambda>raw. Inr (sfloat_of_raw raw, offset + 2))"

section \<open>Constants\<close>

definition OMRON_COMPANY_ID :: int where
  "OMRON_COMPANY_ID = 0x020e"

definition BLOOD_PRESSURE_MEASUREMENT :: string where
  "BLOOD_PRESSURE_MEASUREMENT = ''2A35''"

definition WEIGHT_MEASUREMENT :: string where
  "WEIGHT_MEASUREMENT = ''2A9D''"

definition BODY_COMPOSITION_MEASUREMENT :: string where
  "BODY_COMPOSITION_MEASUREMENT = ''2A9C''"

definition TEMPERATURE_MEASUREMENT :: string where
  "TEMPERATURE_MEASUREMENT = ''2A1C''"

definition RECORD_ACCESS_CONTROL_POINT :: string where
  "RECORD_ACCESS_CONTROL_POINT = ''2A52''"

definition OMRON_PLX_SPOT_CHECK :: string where
  "OMRON_PLX_SPOT_CHECK = ''6E4000F1-B5A3-F393-EFA9-E50E24DCCA9E''"

definition REPORT_STORED_RECORDS :: "8 word" where
  "REPORT_STORED_RECORDS = 0x01"

definition REPORT_NUMBER_OF_STORED_RECORDS :: "8 word" where
  "REPORT_NUMBER_OF_STORED_RECORDS = 0x04"

definition NUMBER_OF_STORED_RECORDS_RESPONSE :: int where
  "NUMBER_OF_STORED_RECORDS_RESPONSE = 0x05"

definition RESPONSE_CODE :: int where
  "RESPONSE_CODE = 0x06"

definition ALL_RECORDS :: "8 word" where
  "ALL_RECORDS = 0x01"

section \<open>Data model\<close>

record OmronUserInfo =
  index :: int
  lastSequenceNumber :: int
  numberOfRecords :: int

record OmronAdvertisingInfo =
  pairable :: bool
  timeNotConfigured :: bool
  numberOfUsers :: int
  users :: "OmronUserInfo list"

text \<open>
  A \<^verbatim>\<open>Device\<close> of the BLE library, as far as the hook reads it. \<open>manufacturerData = None\<close>
  stands for a falsy field (\<^verbatim>\<open>null\<close>, \<^verbatim>\<open>undefined\<close> or the empty string); otherwise
  the field holds the bytes of the base64 string.
\<close>

record Device =
  device_id :: string
  name :: "string option"
  manufacturerData :: "buffer option"

text \<open>\<^verbatim>\<open>OmronDiscoveredDevice = Device & OmronAdvertisingInfo\<close>, built by \<^verbatim>\<open>Object.assign\<close>.\<close>

record OmronDiscoveredDevice =
  device :: Device
  advertising :: OmronAdvertisingInfo

text \<open>
  A \<^verbatim>\<open>Date\<close>: either \<^verbatim>\<open>new Date(year, monthIndex, day, hour, minute, second)\<close> with
  the six arguments as passed, or \<^verbatim>\<open>new Date()\<close>, the time of capture.
\<close>

datatype js_date = DateOf int int int int int int | Now

datatype measurement_unit = MmHg | Kg | Celsius

datatype OmronMeasurement =
    BloodPressure (systolic: js_float) (diastolic: js_float) (meanArterialPressure: js_float)
      (pulse: "js_float option") (timestamp: js_date) (unit: measurement_unit)
  | Weight (weight: js_float) (timestamp: js_date) (unit: measurement_unit)
  | Temperature (temperature: js_float) (timestamp: js_date) (unit: measurement_unit)
  | BodyComposition (timestamp: js_date) (bodyFatPercentage: "js_float option")
      (muscleMass: "js_float option")

section \<open>Advertisement decoder\<close>

text \<open>
  The \<^verbatim>\<open>for\<close> loop of \<^verbatim>\<open>parseOmronManufacturerData\<close> over the user slots: \<open>n\<close> is
  \<^verbatim>\<open>numberOfUsers\<close>, \<open>us\<close> the array \<^verbatim>\<open>users\<close> built so far.
\<close>

function readUsers ::
  "buffer \<Rightarrow> int \<Rightarrow> int \<Rightarrow> nat \<Rightarrow> OmronUserInfo list \<Rightarrow> js_error + OmronUserInfo list" where
  "readUsers buffer n i offset us =
     (if i < n then
        bindE (readUInt16LE buffer offset) (\<lambda>lsn.
        bindE (readUInt8 buffer (offset + 2)) (\<lambda>nrec.
          readUsers buffer n (i + 1) (offset + 3)
            (us @ [\<lparr>index = i + 1, lastSequenceNumber = lsn, numberOfRecords = nrec\<rparr>])))
      else Inr us)"
  by pat_completeness auto
termination
  by (relation "measure (\<lambda>(buffer, n, i, offset, us). nat (n - i))") auto

declare readUsers.simps [simp del]

text \<open>
  The body of the \<^verbatim>\<open>try\<close> block: \<open>Inl\<close> is a thrown error, \<open>Inr None\<close> the
  \<^verbatim>\<open>return null\<close> of a payload that is not Omron's.
\<close>

definition parseOmronManufacturerData_try ::
  "buffer \<Rightarrow> js_error + OmronAdvertisingInfo option" where
  "parseOmronManufacturerData_try buffer =
     bindE (readUInt16LE buffer 0) (\<lambda>companyId.
     bindE (readUInt8 buffer 2) (\<lambda>type.
       if companyId \<noteq> OMRON_COMPANY_ID \<or> type \<noteq> 0x01 then Inr None
       else
         bindE (readUInt8 buffer 3) (\<lambda>flags.
         bindE (readUsers buffer ((flags AND 3) + 1) 0 4 []) (\<lambda>us.
           Inr (Some \<lparr>pairable = (flags AND 8 \<noteq> 0),
                      timeNotConfigured = (flags AND 4 \<noteq> 0),
                      numberOfUsers = (flags AND 3) + 1,
                      users = us\<rparr>)))))"

section \<open>Measurement decoders\<close>

text \<open>The seven-byte date-time block, read the same way by three decoders.\<close>

definition readTimestamp :: "buffer \<Rightarrow> nat \<Rightarrow> js_error + js_date" where
  "readTimestamp buffer offset =
     bindE (readUInt16LE buffer offset) (\<lambda>year.
     bindE (readUInt8 buffer (offset + 2)) (\<lambda>month.
     bindE (readUInt8 buffer (offset + 3)) (\<lambda>day.
     bindE (readUInt8 buffer (offset + 4)) (\<lambda>hour.
     bindE (readUInt8 buffer (offset + 5)) (\<lambda>minute.
     bindE (readUInt8 buffer (offset + 6)) (\<lambda>second.
       Inr (DateOf year (month - 1) day hour minute second)))))))"

definition parseBloodPressureData :: "buffer \<Rightarrow> js_error + OmronMeasurement" where
  "parseBloodPressureData buffer =
     bindE (readUInt8 buffer 0) (\<lambda>flags.
     bindE (readSFloat buffer 1) (\<lambda>(sys, offset1).
     bindE (readSFloat buffer offset1) (\<lambda>(dia, offset2).
     bindE (readSFloat buffer offset2) (\<lambda>(mean, offset3).
     bindE (if flags AND 0x02 \<noteq> 0
            then bindE (readTimestamp buffer offset3) (\<lambda>d. Inr (Some d, offset3 + 7))
            else Inr (None, offset3)) (\<lambda>(ts, offset4).
     bindE (if flags AND 0x04 \<noteq> 0
            then bindE (readSFloat buffer offset4) (\<lambda>(p, offset5). Inr (Some p))
            else Inr None) (\<lambda>p.
       Inr (BloodPressure sys dia mean p (case ts of Some d \<Rightarrow> d | None \<Rightarrow> Now) MmHg)))))))"

definition parseWeightData :: "buffer \<Rightarrow> js_error + OmronMeasurement" where
  "parseWeightData buffer =
     bindE (readUInt8 buffer 0) (\<lambda>flags.
     bindE (readUInt16LE buffer 1) (\<lambda>weightRaw.
     bindE (if flags AND 0x02 \<noteq> 0
            then bindE (readTimestamp buffer 3) (\<lambda>d. Inr (Some d))
            else Inr None) (\<lambda>ts.
       Inr (Weight (FMul (FNum weightRaw) (FLit (5 / 1000)))
              (case ts of Some d \<Rightarrow> d | None \<Rightarrow> Now) Kg))))"

definition readFloatLE :: "buffer \<Rightarrow> nat \<Rightarrow> js_error + js_float" where
  "readFloatLE buffer offset =
     (if offset + 4 \<le> length buffer
      then Inr (Float32 (ucast (buffer ! offset)
                    OR push_bit 8 (ucast (buffer ! (offset + 1)))
                    OR push_bit 16 (ucast (buffer ! (offset + 2)))
                    OR push_bit 24 (ucast (buffer ! (offset + 3)))))
      else Inl RangeError)"

definition parseTemperatureData :: "buffer \<Rightarrow> js_error + OmronMeasurement" where
  "parseTemperatureData buffer =
     bindE (readUInt8 buffer 0) (\<lambda>flags.
     bindE (readFloatLE buffer 1) (\<lambda>tempRaw.
     bindE (if flags AND 0x02 \<noteq> 0
            then bindE (readTimestamp buffer 5) (\<lambda>d. Inr (Some d))
            else Inr None) (\<lambda>ts.
       Inr (Temperature
              (if flags AND 0x01 \<noteq> 0 then tempRaw
               else FDiv (FMul (FSub tempRaw (FNum 32)) (FNum 5)) (FNum 9))
              (case ts of Some d \<Rightarrow> d | None \<Rightarrow> Now) Celsius))))"

definition parseBodyCompositionData :: "buffer \<Rightarrow> js_error + OmronMeasurement" where
  "parseBodyCompositionData buffer =
     bindE (readUInt16LE buffer 0) (\<lambda>flags.
     bindE (if flags AND 0x02 \<noteq> 0
            then bindE (readUInt16LE buffer 2)
                   (\<lambda>raw. Inr (Some (FDiv (FNum raw) (FNum 10)), 4))
            else Inr (None, 2)) (\<lambda>(fat, offset1).
     bindE (if flags AND 0x20 \<noteq> 0
            then bindE (readUInt16LE buffer offset1)
                   (\<lambda>raw. Inr (Some (FDiv (FNum raw) (FNum 10))))
            else Inr None) (\<lambda>muscle.
       Inr (BodyComposition Now fat muscle))))"

text \<open>
  \<^verbatim>\<open>String.prototype.toUpperCase\<close> on the ASCII letters (characteristic UUIDs are
  hexadecimal digits and dashes) and \<^verbatim>\<open>String.prototype.includes\<close>.
\<close>

definition toUpperCase_char :: "char \<Rightarrow> char" where
  "toUpperCase_char c =
     (case map_of (zip ''abcdefghijklmnopqrstuvwxyz'' ''ABCDEFGHIJKLMNOPQRSTUVWXYZ'') c of
        Some u \<Rightarrow> u
      | None \<Rightarrow> c)"

definition toUpperCase :: "string \<Rightarrow> string" where
  "toUpperCase s = map toUpperCase_char s"

definition includes_str :: "string \<Rightarrow> string \<Rightarrow> bool" where
  "includes_str s sub = sublist sub s"

definition isMeasurementCharacteristic :: "string \<Rightarrow> bool" where
  "isMeasurementCharacteristic uuid =
     list_ex (\<lambda>muuid. includes_str (toUpperCase uuid) (toUpperCase muuid))
       [BLOOD_PRESSURE_MEASUREMENT, WEIGHT_MEASUREMENT, BODY_COMPOSITION_MEASUREMENT,
        TEMPERATURE_MEASUREMENT, OMRON_PLX_SPOT_CHECK]"

text \<open>The body of the \<^verbatim>\<open>try\<close> block of \<^verbatim>\<open>parseMeasurementData\<close>.\<close>

definition parseMeasurementData_try ::
  "string \<Rightarrow> buffer \<Rightarrow> js_error + OmronMeasurement option" where
  "parseMeasurementData_try characteristicUUID buffer =
     (let uuid = toUpperCase characteristicUUID in
      if includes_str uuid BLOOD_PRESSURE_MEASUREMENT
        then bindE (parseBloodPressureData buffer) (\<lambda>m. Inr (Some m))
      else if includes_str uuid WEIGHT_MEASUREMENT
        then bindE (parseWeightData buffer) (\<lambda>m. Inr (Some m))
      else if includes_str uuid TEMPERATURE_MEASUREMENT
        then bindE (parseTemperatureData buffer) (\<lambda>m. Inr (Some m))
      else if includes_str uuid BODY_COMPOSITION_MEASUREMENT
        then bindE (parseBodyCompositionData buffer) (\<lambda>m. Inr (Some m))
      else Inr None)"

section \<open>The state of the hook\<close>

text \<open>
  A subscription handle of the BLE library: the one of \<^verbatim>\<open>manager.onStateChange\<close>, one per
  monitored measurement characteristic, and the one on the record access control point.
\<close>

datatype subscription =
    StateChangeSubscription
  | MeasurementMonitor string
  | RACPMonitor string

text \<open>The calls the hook makes to the BLE library, in the order made.\<close>

datatype ble_call =
    StopDeviceScan
  | StartDeviceScan
  | ConnectToDevice string int
  | DiscoverAllServicesAndCharacteristics
  | Monitor string
  | WriteWithResponse string buffer
  | CancelDeviceConnection string
  | Remove subscription
  | Destroy

text \<open>
  The messages given to \<^verbatim>\<open>addLog\<close>, one constructor per template of the source; the
  text of a caught error and the time prefix are left out.
\<close>

datatype log_message =
    ParseError
  | StartingDeviceScan
  | ScanError
  | FoundOmronDevice "string option"
  | ScanStopped
  | NotificationError
  | ReceivedMeasurement OmronMeasurement
  | NotificationsEnabled string
  | FailedToSetupNotification
  | RequestedAllStoredRecords
  | FailedToRequestRecords
  | DeviceHasStoredRecords int
  | RACPResponse int int
  | RACPResponseError
  | RACPCharacteristicNotFound
  | RACPError
  | RequestedNumberOfStoredRecords
  | RACPRequestFailed
  | SetupFailed
  | ConnectingTo "string option"
  | ConnectedTo "string option"
  | ServicesDiscovered
  | ConnectionFailed
  | DisconnectedFromDevice

text \<open>
  The React state (\<open>devices\<close> to \<open>logs\<close>), the three refs and the options the functions
  read. \<open>managerRef\<close> holds whether \<^verbatim>\<open>managerRef.current\<close> is set, \<open>scanTimeoutRef\<close>
  whether the scan timer is pending. \<open>calls\<close> records the calls made to the BLE library.
\<close>

record hook_state =
  devices :: "OmronDiscoveredDevice list"
  connectedDevice :: "Device option"
  connectionState :: string
  measurementData :: "OmronMeasurement list"
  logs :: "log_message list"
  managerRef :: bool
  scanTimeoutRef :: bool
  subscriptionsRef :: "subscription list"
  logLimit :: int
  requestMtu :: int
  autoScanOnBluetoothOn :: bool
  calls :: "ble_call list"

text \<open>
  How the BLE library answers the awaited calls of one operation: \<open>connect_result\<close> is
  the device \<^verbatim>\<open>manager.connectToDevice\<close> resolves to (\<open>None\<close>: it rejects),
  \<open>services_result\<close> the characteristic UUIDs by service that \<^verbatim>\<open>device.services()\<close> and
  \<^verbatim>\<open>service.characteristics()\<close> give (\<open>None\<close>: one of them rejects), the others say
  whether the call returns (\<open>True\<close>) or throws.
\<close>

record ble_answers =
  connect_result :: "Device option"
  discover_ok :: bool
  services_result :: "string list list option"
  monitor_ok :: "string \<Rightarrow> bool"
  write_ok :: bool
  cancel_ok :: bool

definition call :: "ble_call \<Rightarrow> hook_state \<Rightarrow> hook_state" where
  "call c st = st\<lparr>calls := calls st @ [c]\<rparr>"

text \<open>\<^verbatim>\<open>prev.slice(-k)\<close> for \<open>k \<ge> 0\<close>: the last \<open>k\<close> elements, and all of them for \<open>-0\<close>.\<close>

definition slice_from_end :: "int \<Rightarrow> 'a list \<Rightarrow> 'a list" where
  "slice_from_end k xs = (if k = 0 then xs else drop (length xs - nat k) xs)"

definition addLog :: "log_message \<Rightarrow> hook_state \<Rightarrow> hook_state" where
  "addLog message st =
     st\<lparr>logs := slice_from_end (max (logLimit st - 1) 0) (logs st) @ [message]\<rparr>"

definition parseOmronManufacturerData ::
  "buffer \<Rightarrow> hook_state \<Rightarrow> OmronAdvertisingInfo option \<times> hook_state" where
  "parseOmronManufacturerData buffer st =
     (case parseOmronManufacturerData_try buffer of
        Inl err \<Rightarrow> (None, addLog ParseError st)
      | Inr r \<Rightarrow> (r, st))"

definition parseMeasurementData ::
  "string \<Rightarrow> buffer \<Rightarrow> hook_state \<Rightarrow> OmronMeasurement option \<times> hook_state" where
  "parseMeasurementData characteristicUUID buffer st =
     (case parseMeasurementData_try characteristicUUID buffer of
        Inl err \<Rightarrow> (None, addLog ParseError st)
      | Inr r \<Rightarrow> (r, st))"

section \<open>Scanning and the device registry\<close>

definition stopScan :: "hook_state \<Rightarrow> hook_state" where
  "stopScan st =
     (if \<not> managerRef st then st
      else (call StopDeviceScan st)\<lparr>scanTimeoutRef := False\<rparr>)"

text \<open>
  The listener given to \<^verbatim>\<open>startDeviceScan\<close>, called with \<^verbatim>\<open>(error, device)\<close>:
  \<open>error\<close> says whether the first argument is set.
\<close>

definition scanListener :: "bool \<Rightarrow> Device option \<Rightarrow> hook_state \<Rightarrow> hook_state" where
  "scanListener error dev st =
     (if error then addLog ScanError st
      else case dev of
        None \<Rightarrow> st
      | Some d \<Rightarrow>
         (case manufacturerData d of
            None \<Rightarrow> st
          | Some md \<Rightarrow>
             (case parseOmronManufacturerData md st of
                (None, st1) \<Rightarrow> st1
              | (Some parsed, st1) \<Rightarrow>
                 (case find (\<lambda>x. device_id (device x) = device_id d) (devices st1) of
                    Some exists \<Rightarrow> st1
                  | None \<Rightarrow>
                     (addLog (FoundOmronDevice (name d)) st1)
                       \<lparr>devices := devices st1 @ [\<lparr>device = d, advertising = parsed\<rparr>]\<rparr>))))"

definition scanDevices :: "hook_state \<Rightarrow> hook_state" where
  "scanDevices st =
     (if \<not> managerRef st then st
      else
        let st1 = addLog StartingDeviceScan st;
            st2 = st1\<lparr>devices := []\<rparr>;
            st3 = stopScan st2
        in (call StartDeviceScan st3)\<lparr>scanTimeoutRef := True\<rparr>)"

definition scanTimeout :: "hook_state \<Rightarrow> hook_state" where
  "scanTimeout st = addLog ScanStopped (stopScan st)"

section \<open>Subscriptions, notifications and the record access control point\<close>

text \<open>
  \<^verbatim>\<open>sub.remove()\<close> is called on every handle; what it throws is swallowed, so the outcome
  of the call does not reach the state.
\<close>

definition removeAllSubscriptions :: "hook_state \<Rightarrow> hook_state" where
  "removeAllSubscriptions st =
     st\<lparr>calls := calls st @ map Remove (subscriptionsRef st), subscriptionsRef := []\<rparr>"

text \<open>
  The callback given to \<^verbatim>\<open>characteristic.monitor\<close> by \<^verbatim>\<open>setupNotification\<close>, for the
  characteristic \<open>uuid\<close>; \<open>v = None\<close> is a falsy \<^verbatim>\<open>char?.value\<close>.
\<close>

definition notificationListener ::
  "string \<Rightarrow> bool \<Rightarrow> buffer option \<Rightarrow> hook_state \<Rightarrow> hook_state" where
  "notificationListener uuid error v st =
     (if error then addLog NotificationError st
      else case v of
        None \<Rightarrow> st
      | Some b \<Rightarrow>
         (case parseMeasurementData uuid b st of
            (None, st1) \<Rightarrow> st1
          | (Some data, st1) \<Rightarrow>
             (addLog (ReceivedMeasurement data) st1)
               \<lparr>measurementData := measurementData st1 @ [data]\<rparr>))"

definition setupNotification :: "ble_answers \<Rightarrow> string \<Rightarrow> hook_state \<Rightarrow> hook_state" where
  "setupNotification ble uuid st =
     (if monitor_ok ble uuid
      then addLog (NotificationsEnabled uuid)
             ((call (Monitor uuid) st)
                \<lparr>subscriptionsRef := subscriptionsRef st @ [MeasurementMonitor uuid]\<rparr>)
      else addLog FailedToSetupNotification (call (Monitor uuid) st))"

definition requestAllStoredRecords ::
  "ble_answers \<Rightarrow> string \<Rightarrow> hook_state \<Rightarrow> hook_state" where
  "requestAllStoredRecords ble racpChar st =
     (let st1 = call (WriteWithResponse racpChar [REPORT_STORED_RECORDS, ALL_RECORDS]) st
      in if write_ok ble then addLog RequestedAllStoredRecords st1
         else addLog FailedToRequestRecords st1)"

text \<open>The body of the \<^verbatim>\<open>try\<close> block of \<^verbatim>\<open>handleRACPResponse\<close>.\<close>

definition handleRACPResponse_try ::
  "ble_answers \<Rightarrow> buffer \<Rightarrow> string \<Rightarrow> hook_state \<Rightarrow> js_error + hook_state" where
  "handleRACPResponse_try ble buffer racpChar st =
     bindE (readUInt8 buffer 0) (\<lambda>opCode.
       if opCode = NUMBER_OF_STORED_RECORDS_RESPONSE then
         bindE (readUInt16LE buffer 2) (\<lambda>n.
           let st1 = addLog (DeviceHasStoredRecords n) st
           in Inr (if n > 0 then requestAllStoredRecords ble racpChar st1 else st1))
       else if opCode = RESPONSE_CODE then
         bindE (readUInt8 buffer 2) (\<lambda>requestOpCode.
         bindE (readUInt8 buffer 3) (\<lambda>responseValue.
           Inr (addLog (RACPResponse requestOpCode responseValue) st)))
       else Inr st)"

definition handleRACPResponse ::
  "ble_answers \<Rightarrow> buffer \<Rightarrow> string \<Rightarrow> hook_state \<Rightarrow> hook_state" where
  "handleRACPResponse ble buffer racpChar st =
     (case handleRACPResponse_try ble buffer racpChar st of
        Inl err \<Rightarrow> addLog RACPResponseError st
      | Inr st' \<Rightarrow> st')"

text \<open>
  The callback given to \<^verbatim>\<open>racpChar.monitor\<close> by \<^verbatim>\<open>requestStoredRecords\<close>;
  \<open>racpChar\<close> is the UUID of the control point it was set on.
\<close>

definition racpListener ::
  "ble_answers \<Rightarrow> string \<Rightarrow> bool \<Rightarrow> buffer option \<Rightarrow> hook_state \<Rightarrow> hook_state" where
  "racpListener ble racpChar error v st =
     (if error then addLog RACPError st
      else case v of
        None \<Rightarrow> st
      | Some b \<Rightarrow> handleRACPResponse ble b racpChar st)"

definition requestStoredRecords :: "ble_answers \<Rightarrow> hook_state \<Rightarrow> hook_state" where
  "requestStoredRecords ble st =
     (case services_result ble of
        None \<Rightarrow> addLog RACPRequestFailed st
      | Some services \<Rightarrow>
         (case find (\<lambda>uuid. includes_str (toUpperCase uuid) RECORD_ACCESS_CONTROL_POINT)
                 (concat services) of
            None \<Rightarrow> addLog RACPCharacteristicNotFound st
          | Some racpChar \<Rightarrow>
             if \<not> monitor_ok ble racpChar
             then addLog RACPRequestFailed (call (Monitor racpChar) st)
             else
               let st1 = (call (Monitor racpChar) st)
                           \<lparr>subscriptionsRef := subscriptionsRef st @ [RACPMonitor racpChar]\<rparr>;
                   st2 = call (WriteWithResponse racpChar
                                 [REPORT_NUMBER_OF_STORED_RECORDS, ALL_RECORDS]) st1
               in if write_ok ble then addLog RequestedNumberOfStoredRecords st2
                  else addLog RACPRequestFailed st2))"

definition setupDataTransfer :: "ble_answers \<Rightarrow> hook_state \<Rightarrow> hook_state" where
  "setupDataTransfer ble st =
     (case services_result ble of
        None \<Rightarrow> addLog SetupFailed st
      | Some services \<Rightarrow>
         requestStoredRecords ble
           (fold (\<lambda>uuid s. if isMeasurementCharacteristic uuid
                           then setupNotification ble uuid s else s)
              (concat services) st))"

section \<open>Connecting and disconnecting\<close>

text \<open>
  \<^verbatim>\<open>connectToDevice\<close> in two parts: what runs before \<^verbatim>\<open>manager.connectToDevice\<close> is
  awaited, and what runs once the library has answered.
\<close>

definition connectToDevice_begin :: "Device \<Rightarrow> hook_state \<Rightarrow> hook_state" where
  "connectToDevice_begin d st =
     (let st1 = stopScan st;
          st2 = removeAllSubscriptions st1;
          st3 = st2\<lparr>measurementData := []\<rparr>;
          st4 = st3\<lparr>connectionState := ''Connecting...''\<rparr>;
          st5 = addLog (ConnectingTo (name d)) st4
      in call (ConnectToDevice (device_id d) (requestMtu st)) st5)"

definition connectToDevice_resume ::
  "ble_answers \<Rightarrow> Device \<Rightarrow> hook_state \<Rightarrow> hook_state" where
  "connectToDevice_resume ble d st =
     (case connect_result ble of
        None \<Rightarrow> (addLog ConnectionFailed st)\<lparr>connectionState := ''Connection Failed''\<rparr>
      | Some connectedDev \<Rightarrow>
         let st1 = st\<lparr>connectedDevice := Some connectedDev, connectionState := ''Connected''\<rparr>;
             st2 = addLog (ConnectedTo (name d)) st1;
             st3 = call DiscoverAllServicesAndCharacteristics st2
         in if \<not> discover_ok ble
            then (addLog ConnectionFailed st3)\<lparr>connectionState := ''Connection Failed''\<rparr>
            else setupDataTransfer ble (addLog ServicesDiscovered st3))"

definition connectToDevice :: "ble_answers \<Rightarrow> Device \<Rightarrow> hook_state \<Rightarrow> hook_state" where
  "connectToDevice ble d st =
     (if \<not> managerRef st then st
      else connectToDevice_resume ble d (connectToDevice_begin d st))"

text \<open>
  The \<^verbatim>\<open>try\<close> block of \<^verbatim>\<open>disconnect\<close>: it ends with the awaited
  \<^verbatim>\<open>cancelDeviceConnection\<close>, which may reject. The result is what was thrown, if
  anything, and the state reached.
\<close>

definition disconnect_try ::
  "ble_answers \<Rightarrow> Device \<Rightarrow> hook_state \<Rightarrow> js_error option \<times> hook_state" where
  "disconnect_try ble cd st =
     (let st1 = removeAllSubscriptions st;
          st2 = call (CancelDeviceConnection (device_id cd)) st1
      in (if cancel_ok ble then None else Some BleError, st2))"

text \<open>The empty \<^verbatim>\<open>catch\<close> drops what was thrown; the \<^verbatim>\<open>finally\<close> block runs on both paths.\<close>

definition disconnect :: "ble_answers \<Rightarrow> hook_state \<Rightarrow> hook_state" where
  "disconnect ble st =
     (if \<not> managerRef st then st
      else case connectedDevice st of
        None \<Rightarrow> st
      | Some cd \<Rightarrow>
         (case disconnect_try ble cd st of
            (thrown, st2) \<Rightarrow>
              addLog DisconnectedFromDevice
                (st2\<lparr>connectedDevice := None, connectionState := ''Disconnected''\<rparr>)))"

section \<open>Mounting, and the hook as a transition system\<close>

text \<open>
  The state after the first render and the effect: empty React state, a manager, and the
  state-change subscription. The options are the parameters.
\<close>

definition mount :: "int \<Rightarrow> int \<Rightarrow> bool \<Rightarrow> hook_state" where
  "mount limit mtu autoScan =
     \<lparr>devices = [], connectedDevice = None, connectionState = ''Disconnected'',
      measurementData = [], logs = [], managerRef = True, scanTimeoutRef = False,
      subscriptionsRef = [StateChangeSubscription], logLimit = limit, requestMtu = mtu,
      autoScanOnBluetoothOn = autoScan, calls = []\<rparr>"

text \<open>The listener given to \<^verbatim>\<open>manager.onStateChange\<close>.\<close>

definition stateChangeListener :: "string \<Rightarrow> hook_state \<Rightarrow> hook_state" where
  "stateChangeListener state st =
     (if state = ''PoweredOn'' \<and> autoScanOnBluetoothOn st then scanDevices st else st)"

text \<open>The cleanup of the effect.\<close>

definition unmount :: "hook_state \<Rightarrow> hook_state" where
  "unmount st =
     (let st1 = stopScan st;
          st2 = removeAllSubscriptions st1
      in (call Destroy st2)\<lparr>managerRef := False\<rparr>)"

text \<open>Everything that can happen to a mounted hook: a call of the application or a callback.\<close>

datatype event =
    ScanDevices
  | ScanListener bool "Device option"
  | ScanTimeout
  | StateChange string
  | ConnectToDeviceBegin Device
  | ConnectToDeviceResume ble_answers Device
  | Disconnect ble_answers
  | Notification string bool "buffer option"
  | RACPIndication ble_answers string bool "buffer option"
  | Unmount

fun step :: "event \<Rightarrow> hook_state \<Rightarrow> hook_state" where
  "step ScanDevices st = scanDevices st"
| "step (ScanListener error dev) st = scanListener error dev st"
| "step ScanTimeout st = scanTimeout st"
| "step (StateChange state) st = stateChangeListener state st"
| "step (ConnectToDeviceBegin d) st = (if managerRef st then connectToDevice_begin d st else st)"
| "step (ConnectToDeviceResume ble d) st = connectToDevice_resume ble d st"
| "step (Disconnect ble) st = disconnect ble st"
| "step (Notification uuid error v) st = notificationListener uuid error v st"
| "step (RACPIndication ble racpChar error v) st = racpListener ble racpChar error v st"
| "step Unmount st = unmount st"

definition run :: "event list \<Rightarrow> hook_state \<Rightarrow> hook_state" where
  "run evs st = fold step evs st"

section \<open>The value of a JavaScript number\<close>

text \<open>
  IEEE-754 binary64 with the default rounding, to nearest and ties to even, over the
  rationals. \<open>bit_length k\<close> is the number of binary digits of a positive integer,
  \<open>floor_log2 x\<close> the exponent \<open>e\<close> with \<open>2 ^ e \<le> x < 2 ^ (e + 1)\<close> for a positive
  \<open>x\<close>. \<open>round_binary64 x\<close> is the double nearest to \<open>x\<close>: its unit in the last place
  is \<open>2 ^ (e - 52)\<close>, with \<open>e\<close> no smaller than -1022 (below are the subnormal numbers);
  \<open>None\<close> is a result that overflows to an infinity.
\<close>

function bit_length :: "int \<Rightarrow> int" where
  "bit_length k = (if k \<le> 0 then 0 else 1 + bit_length (k div 2))"
  by pat_completeness auto
termination
  by (relation "measure nat") auto

declare bit_length.simps [simp del]

definition pow2 :: "int \<Rightarrow> rat" where
  "pow2 e = (if 0 \<le> e then 2 ^ nat e else 1 / 2 ^ nat (- e))"

definition floor_log2 :: "rat \<Rightarrow> int" where
  "floor_log2 x =
     (let (p, q) = quotient_of x;
          d = bit_length p - bit_length q
      in if pow2 d \<le> x then d else d - 1)"

definition round_half_even :: "rat \<Rightarrow> int" where
  "round_half_even q =
     (let f = \<lfloor>q\<rfloor>; r = q - of_int f
      in if r < 1 / 2 then f else if 1 / 2 < r then f + 1 else if even f then f else f + 1)"

definition round_binary64 :: "rat \<Rightarrow> rat option" where
  "round_binary64 x =
     (if x = 0 then Some 0
      else
        let e = max (floor_log2 \<bar>x\<bar>) (- 1022);
            n = round_half_even (x / pow2 (e - 52))
        in if 1023 < e \<or> (e = 1023 \<and> 2 ^ 53 \<le> \<bar>n\<bar>) then None
           else Some (of_int n * pow2 (e - 52)))"

text \<open>
  The value of a binary32 bit pattern: sign bit 31, exponent bits 23 to 30, fraction bits
  0 to 22; \<open>None\<close> for the infinities and NaN.
\<close>

definition binary32_value :: "32 word \<Rightarrow> rat option" where
  "binary32_value w =
     (let s = (if bit w 31 then - 1 else 1);
          ex = uint (take_bit 8 (drop_bit 23 w));
          fr = uint (take_bit 23 w)
      in if ex = 255 then None
         else if ex = 0 then Some (s * of_int fr * pow2 (- 149))
         else Some (s * of_int (2 ^ 23 + fr) * pow2 (ex - 150)))"

text \<open>
  The value of a term, \<open>None\<close> when it is not a finite number. The arithmetic
  operations and the conversion of a literal are correctly rounded, as IEEE-754 and
  ECMAScript require. \<^verbatim>\<open>Math.pow\<close> is only required to approximate: it returns 1 for an
  exponent of 0, whatever the base, and for the base 10 and another integer exponent its
  results are the parameter \<open>pow10\<close>, the table of the JavaScript engine; other powers do
  not occur in the program and have no value here.
\<close>

fun number_value :: "(int \<Rightarrow> rat option) \<Rightarrow> js_float \<Rightarrow> rat option" where
  "number_value pow10 (Float32 w) = binary32_value w"
| "number_value pow10 (FNum n) = round_binary64 (of_int n)"
| "number_value pow10 (FLit q) = round_binary64 q"
| "number_value pow10 (FSub a b) =
     (case (number_value pow10 a, number_value pow10 b) of
        (Some x, Some y) \<Rightarrow> round_binary64 (x - y)
      | _ \<Rightarrow> None)"
| "number_value pow10 (FMul a b) =
     (case (number_value pow10 a, number_value pow10 b) of
        (Some x, Some y) \<Rightarrow> round_binary64 (x * y)
      | _ \<Rightarrow> None)"
| "number_value pow10 (FDiv a b) =
     (case (number_value pow10 a, number_value pow10 b) of
        (Some x, Some y) \<Rightarrow> if y = 0 then None else round_binary64 (x / y)
      | _ \<Rightarrow> None)"
| "number_value pow10 (FPow a b) =
     (case number_value pow10 b of
        None \<Rightarrow> None
      | Some y \<Rightarrow>
          if y = 0 then Some 1
          else (case number_value pow10 a of
                  None \<Rightarrow> None
                | Some x \<Rightarrow> if x = 10 \<and> of_int \<lfloor>y\<rfloor> = y then pow10 \<lfloor>y\<rfloor> else None))"

text \<open>An engine whose \<^verbatim>\<open>Math.pow(10, e)\<close> is the double nearest to the power of ten.\<close>

definition nearest_pow10 :: "int \<Rightarrow> rat option" where
  "nearest_pow10 e = round_binary64 (if 0 \<le> e then 10 ^ nat e else 1 / 10 ^ nat (- e))"

section \<open>The layouts of the specification\<close>

text \<open>
  The vocabulary in which the properties are stated, written from the layouts of the
  specification and not from the code. \<open>decimal m e\<close> is the number computed as the
  binary64 product of \<open>m\<close> and \<^verbatim>\<open>Math.pow(10, e)\<close>. The SFLOAT: a 16-bit word whose low
  12 bits are a two's-complement mantissa and whose high 4 bits are a two's-complement
  exponent.
\<close>

definition decimal :: "int \<Rightarrow> int \<Rightarrow> js_float" where
  "decimal m e = FMul (FNum m) (FPow (FNum 10) (FNum e))"

definition sfloat_spec :: "16 word \<Rightarrow> js_float" where
  "sfloat_spec w = decimal (sint (ucast w :: 12 word)) (sint (ucast (drop_bit 12 w) :: 4 word))"

text \<open>The little-endian fields found at an offset of a payload.\<close>

definition u16_at :: "buffer \<Rightarrow> nat \<Rightarrow> int" where
  "u16_at buffer offset = uint (word_cat (buffer ! (offset + 1)) (buffer ! offset) :: 16 word)"

definition sfloat_at :: "buffer \<Rightarrow> nat \<Rightarrow> js_float" where
  "sfloat_at buffer offset = sfloat_spec (word_cat (buffer ! (offset + 1)) (buffer ! offset))"

definition date_at :: "buffer \<Rightarrow> nat \<Rightarrow> js_date" where
  "date_at buffer offset =
     DateOf (u16_at buffer offset) (uint (buffer ! (offset + 2)) - 1)
       (uint (buffer ! (offset + 3))) (uint (buffer ! (offset + 4)))
       (uint (buffer ! (offset + 5))) (uint (buffer ! (offset + 6)))"

definition float32_at :: "buffer \<Rightarrow> nat \<Rightarrow> js_float" where
  "float32_at buffer offset =
     Float32 (word_cat (word_cat (buffer ! (offset + 3)) (buffer ! (offset + 2)) :: 16 word)
                (word_cat (buffer ! (offset + 1)) (buffer ! offset) :: 16 word))"

text \<open>
  The advertising payload: company identifier 0x020E little-endian, type byte 0x01, the
  flags byte (bit 3 pairable, bit 2 time not configured, bits 0 and 1 the number of users
  minus one), then one slot of three bytes per user.
\<close>

definition encodeFlags :: "OmronAdvertisingInfo \<Rightarrow> 8 word" where
  "encodeFlags info =
     (if pairable info then 0x08 else 0) OR (if timeNotConfigured info then 0x04 else 0)
       OR word_of_int (numberOfUsers info - 1)"

definition encodeUser :: "OmronUserInfo \<Rightarrow> buffer" where
  "encodeUser u =
     [word_of_int (lastSequenceNumber u), word_of_int (drop_bit 8 (lastSequenceNumber u)),
      word_of_int (numberOfRecords u)]"

definition encodeAdvertising :: "OmronAdvertisingInfo \<Rightarrow> buffer" where
  "encodeAdvertising info =
     [0x0e, 0x02, 0x01, encodeFlags info] @ concat (map encodeUser (users info))"

definition valid_user :: "OmronUserInfo \<Rightarrow> bool" where
  "valid_user u \<longleftrightarrow>
     0 \<le> lastSequenceNumber u \<and> lastSequenceNumber u \<le> 65535 \<and>
     0 \<le> numberOfRecords u \<and> numberOfRecords u \<le> 255"

definition valid_advertising :: "OmronAdvertisingInfo \<Rightarrow> bool" where
  "valid_advertising info \<longleftrightarrow>
     1 \<le> numberOfUsers info \<and> numberOfUsers info \<le> 4 \<and>
     map index (users info) = [1..numberOfUsers info] \<and>
     list_all valid_user (users info)"

text \<open>
  A payload with Omron's header; one too short for the reads it calls for; one of at
  least three bytes that is not Omron's.
\<close>

definition omron_header :: "buffer \<Rightarrow> bool" where
  "omron_header buffer \<longleftrightarrow> u16_at buffer 0 = 0x020e \<and> buffer ! 2 = 0x01"

definition truncated_payload :: "buffer \<Rightarrow> bool" where
  "truncated_payload buffer \<longleftrightarrow>
     length buffer < 3 \<or>
     (omron_header buffer \<and>
      (length buffer < 4 \<or> length buffer < 4 + 3 * (unat (buffer ! 3 AND 3) + 1)))"

definition not_omron_payload :: "buffer \<Rightarrow> bool" where
  "not_omron_payload buffer \<longleftrightarrow> 3 \<le> length buffer \<and> \<not> omron_header buffer"

text \<open>The identifiers held by the device registry, in order.\<close>

definition registry_ids :: "hook_state \<Rightarrow> string list" where
  "registry_ids st = map (\<lambda>x. device_id (device x)) (devices st)"

section \<open>Concrete devices, payloads and sessions\<close>

definition bp_uuid :: string where
  "bp_uuid = ''00002a35-0000-1000-8000-00805f9b34fb''"

definition racp_uuid :: string where
  "racp_uuid = ''00002a52-0000-1000-8000-00805f9b34fb''"

definition spot_check_uuid :: string where
  "spot_check_uuid = ''6e4000f1-b5a3-f393-efa9-e50e24dcca9e''"

text \<open>A blood-pressure monitor advertising one user, sequence number 5, 3 records.\<close>

definition example_monitor :: Device where
  "example_monitor =
     \<lparr>device_id = ''AA:01'', name = Some ''BLEsmart_BP'',
      manufacturerData = Some [0x0e, 0x02, 0x01, 0x08, 0x05, 0x00, 0x03]\<rparr>"

text \<open>The same monitor sighted again after one more measurement was stored.\<close>

definition example_monitor_later :: Device where
  "example_monitor_later =
     example_monitor\<lparr>manufacturerData := Some [0x0e, 0x02, 0x01, 0x08, 0x06, 0x00, 0x04]\<rparr>"

text \<open>What the two payloads of the monitor say.\<close>

definition example_monitor_info :: OmronAdvertisingInfo where
  "example_monitor_info =
     \<lparr>pairable = True, timeNotConfigured = False, numberOfUsers = 1,
      users = [\<lparr>index = 1, lastSequenceNumber = 5, numberOfRecords = 3\<rparr>]\<rparr>"

definition example_monitor_later_info :: OmronAdvertisingInfo where
  "example_monitor_later_info =
     \<lparr>pairable = True, timeNotConfigured = False, numberOfUsers = 1,
      users = [\<lparr>index = 1, lastSequenceNumber = 6, numberOfRecords = 4\<rparr>]\<rparr>"

definition example_scale :: Device where
  "example_scale =
     \<lparr>device_id = ''BB:02'', name = Some ''BLEsmart_Scale'',
      manufacturerData = Some [0x0e, 0x02, 0x01, 0x00, 0x0a, 0x00, 0x05]\<rparr>"

text \<open>A beacon of another vendor (company identifier 0x004C).\<close>

definition example_beacon :: Device where
  "example_beacon =
     \<lparr>device_id = ''CC:03'', name = None,
      manufacturerData = Some [0x4c, 0x00, 0x02, 0x15]\<rparr>"

text \<open>An Omron payload that announces two users and carries one slot.\<close>

definition example_truncated :: Device where
  "example_truncated =
     \<lparr>device_id = ''DD:04'', name = Some ''BLEsmart_BP'',
      manufacturerData = Some [0x0e, 0x02, 0x01, 0x01, 0x05, 0x00, 0x03]\<rparr>"

definition example_info :: OmronAdvertisingInfo where
  "example_info =
     \<lparr>pairable = True, timeNotConfigured = False, numberOfUsers = 2,
      users = [\<lparr>index = 1, lastSequenceNumber = 5, numberOfRecords = 3\<rparr>,
               \<lparr>index = 2, lastSequenceNumber = 258, numberOfRecords = 7\<rparr>]\<rparr>"

text \<open>
  A BLE library that connects to the monitor, discovers a blood-pressure characteristic
  and a record access control point, accepts every monitor and write, and rejects the
  cancellation of the connection.
\<close>

definition example_answers :: ble_answers where
  "example_answers =
     \<lparr>connect_result = Some example_monitor, discover_ok = True,
      services_result = Some [[bp_uuid, racp_uuid]],
      monitor_ok = (\<lambda>uuid. True), write_ok = True, cancel_ok = False\<rparr>"

text \<open>The same library when the device cannot be reached.\<close>

definition example_unreachable :: ble_answers where
  "example_unreachable = example_answers\<lparr>connect_result := None\<rparr>"

text \<open>A library whose device exposes only the vendor's spot-check characteristic.\<close>

definition example_spot_check_only :: ble_answers where
  "example_spot_check_only = example_answers\<lparr>services_result := Some [[spot_check_uuid]]\<rparr>"

text \<open>
  Measurement payloads: a blood pressure of 120/80 (mean 93) with a pulse of 72 and one
  without pulse, and what they decode to; a body composition with 25.0 percent body fat
  and 30.7 kg of muscle; a temperature in Fahrenheit with the binary32 pattern
  0x42C53333 (98.6).
\<close>

definition example_bp_pulse :: buffer where
  "example_bp_pulse = [0x04, 0x78, 0x00, 0x50, 0x00, 0x5d, 0x00, 0x48, 0x00]"

definition example_bp_plain :: buffer where
  "example_bp_plain = [0x00, 0x78, 0x00, 0x50, 0x00, 0x5d, 0x00]"

definition example_reading_pulse :: OmronMeasurement where
  "example_reading_pulse =
     BloodPressure (decimal 120 0) (decimal 80 0) (decimal 93 0) (Some (decimal 72 0)) Now MmHg"

definition example_reading_plain :: OmronMeasurement where
  "example_reading_plain =
     BloodPressure (decimal 120 0) (decimal 80 0) (decimal 93 0) None Now MmHg"

definition example_body :: buffer where
  "example_body = [0x22, 0x00, 0xfa, 0x00, 0x33, 0x01]"

definition example_fahrenheit :: buffer where
  "example_fahrenheit = [0x00, 0x33, 0x33, 0xc5, 0x42]"

text \<open>A temperature in Celsius (pattern 0x42140000) stamped 2024-01-02 03:04:05.\<close>

definition example_celsius :: buffer where
  "example_celsius =
     [0x03, 0x00, 0x00, 0x14, 0x42, 0xe8, 0x07, 0x01, 0x02, 0x03, 0x04, 0x05]"

text \<open>A freshly mounted hook, one in the middle of a connect, and a running session.\<close>

definition example_mounted :: hook_state where
  "example_mounted = mount 20 150 False"

definition example_connecting :: hook_state where
  "example_connecting = run [ConnectToDeviceBegin example_monitor] example_mounted"

text \<open>A scan that sights the monitor twice, the second time with the later payload.\<close>

definition example_scan :: "event list" where
  "example_scan =
     [ScanDevices, ScanListener False (Some example_monitor),
      ScanListener False (Some example_monitor_later)]"

definition example_session :: hook_state where
  "example_session =
     run [ConnectToDeviceBegin example_monitor,
          ConnectToDeviceResume example_answers example_monitor,
          Notification bp_uuid False (Some [0x00, 0x78, 0x00, 0x50, 0x00, 0x5d, 0x00])]
       example_mounted"

section \<open>Bits and bytes\<close>

lemma top_bit:
  assumes "0 \<le> k" "k < 2 * 2 ^ n"
  shows "bit (k::int) n \<longleftrightarrow> 2 ^ n \<le> k"
proof (cases "2 ^ n \<le> k")
  case True
  have "k div 2 ^ n = 1"
    by (rule int_div_pos_eq [where r = "k - 2 ^ n"]) (use True assms in simp_all)
  then show ?thesis using True by (simp add: bit_iff_odd)
next
  case False
  then have "k div 2 ^ n = 0" using assms by (simp add: div_pos_pos_trivial)
  then show ?thesis using False by (simp add: bit_iff_odd)
qed

lemma sint_12: "sint (x :: 12 word) = (if uint x \<ge> 0x800 then uint x - 0x1000 else uint x)"
proof -
  have b: "uint x < 4096" using uint_bounded [of x] by simp
  have "bit (uint x) 11 \<longleftrightarrow> 2 ^ 11 \<le> uint x"
    by (rule top_bit) (use b in simp_all)
  then show ?thesis
    by (simp add: sint_uint signed_take_bit_eq_take_bit_minus take_bit_int_eq_self b)
qed

lemma sint_4: "sint (x :: 4 word) = (if uint x \<ge> 8 then uint x - 16 else uint x)"
proof -
  have b: "uint x < 16" using uint_bounded [of x] by simp
  have "bit (uint x) 3 \<longleftrightarrow> 2 ^ 3 \<le> uint x"
    by (rule top_bit) (use b in simp_all)
  then show ?thesis
    by (simp add: sint_uint signed_take_bit_eq_take_bit_minus take_bit_int_eq_self b)
qed

lemma uint_split_le16:
  "uint (ucast w :: 8 word) OR push_bit 8 (uint (ucast (drop_bit 8 w) :: 8 word))
     = uint (w :: 16 word)"
  by (rule bit_eqI) (auto simp: bit_simps dest: bit_imp_le_length)

lemma uint_word_cat_le16:
  "uint (lo :: 8 word) OR push_bit 8 (uint (hi :: 8 word)) = uint (word_cat hi lo :: 16 word)"
  by (rule bit_eqI) (auto simp: bit_simps bit_word_cat_iff dest: bit_imp_le_length)

lemma low12: "uint (w :: 16 word) AND 0x0fff = uint (ucast w :: 12 word)"
proof -
  have "(0x0fff :: int) = mask 12" by (simp add: mask_eq_exp_minus_1)
  then show ?thesis by (simp add: unsigned_ucast_eq take_bit_eq_mask)
qed

lemma high4: "drop_bit 12 (uint (w :: 16 word)) = uint (ucast (drop_bit 12 w) :: 4 word)"
  by (rule bit_eqI) (auto simp: bit_simps dest: bit_imp_le_length)

lemma and_pow2_int: "(k :: int) AND 2 ^ n \<noteq> 0 \<longleftrightarrow> bit k n"
  by (simp add: bit_iff_and_push_bit_not_eq_0 push_bit_eq_mult)

lemma flag_bits8:
  "uint (b :: 8 word) AND 1 \<noteq> 0 \<longleftrightarrow> bit b 0"
  "uint (b :: 8 word) AND 2 \<noteq> 0 \<longleftrightarrow> bit b 1"
  "uint (b :: 8 word) AND 4 \<noteq> 0 \<longleftrightarrow> bit b 2"
  using and_pow2_int [of "uint b" 0] and_pow2_int [of "uint b" 1] and_pow2_int [of "uint b" 2]
  by (simp_all add: bit_uint_iff)

lemma flag_bits16:
  "uint (word_cat (hi :: 8 word) (lo :: 8 word) :: 16 word) AND 2 \<noteq> 0 \<longleftrightarrow> bit lo 1"
  "uint (word_cat (hi :: 8 word) (lo :: 8 word) :: 16 word) AND 0x20 \<noteq> 0 \<longleftrightarrow> bit lo 5"
  using and_pow2_int [of "uint (word_cat hi lo :: 16 word)" 1]
    and_pow2_int [of "uint (word_cat hi lo :: 16 word)" 5]
  by (simp_all add: bit_uint_iff bit_word_cat_iff)

lemma word32_le:
  "ucast (b0 :: 8 word) OR push_bit 8 (ucast (b1 :: 8 word)) OR push_bit 16 (ucast (b2 :: 8 word))
     OR push_bit 24 (ucast (b3 :: 8 word))
   = (word_cat (word_cat b3 b2 :: 16 word) (word_cat b1 b0 :: 16 word) :: 32 word)"
  by (rule bit_word_eqI) (auto simp: bit_simps bit_word_cat_iff dest: bit_imp_le_length)

lemma le16_of_int:
  assumes "0 \<le> x" "x \<le> 65535"
  shows "uint (word_of_int x :: 8 word)
           OR push_bit 8 (uint (word_of_int (drop_bit 8 x) :: 8 word)) = x"
proof -
  have "take_bit 16 x = x" using assms by (simp add: take_bit_int_eq_self)
  moreover have "uint (word_of_int x :: 8 word)
      OR push_bit 8 (uint (word_of_int (drop_bit 8 x) :: 8 word)) = take_bit 16 x"
    by (rule bit_eqI) (auto simp: bit_simps uint_word_of_int_eq)
  ultimately show ?thesis by simp
qed

lemma u8_of_int:
  assumes "0 \<le> x" "x \<le> 255"
  shows "uint (word_of_int x :: 8 word) = x"
  using assms by (simp add: uint_word_of_int_eq take_bit_int_eq_self)

section \<open>Reads\<close>

lemma readUInt16LE_at:
  "readUInt16LE (pre @ [lo, hi] @ post) (length pre) = Inr (uint lo OR push_bit 8 (uint hi))"
  by (simp add: readUInt16LE_def nth_append)

lemma readUInt8_at:
  "readUInt8 (pre @ b # post) (length pre) = Inr (uint b)"
  by (simp add: readUInt8_def nth_append)

lemma readUInt16LE_eq:
  "readUInt16LE buffer offset =
     (if offset + 2 \<le> length buffer then Inr (u16_at buffer offset) else Inl RangeError)"
  by (simp add: readUInt16LE_def u16_at_def uint_word_cat_le16)

lemma sfloat_of_raw_spec: "sfloat_of_raw (uint w) = sfloat_spec w"
  by (simp add: sfloat_of_raw_def sfloat_spec_def decimal_def low12 high4 sint_12 sint_4 Let_def)

lemma readSFloat_eq:
  "readSFloat buffer offset =
     (if offset + 2 \<le> length buffer then Inr (sfloat_at buffer offset, offset + 2)
      else Inl RangeError)"
  by (simp add: readSFloat_def readUInt16LE_eq bindE_def sfloat_at_def u16_at_def
      sfloat_of_raw_spec)

lemma readTimestamp_eq:
  "readTimestamp buffer offset =
     (if offset + 7 \<le> length buffer then Inr (date_at buffer offset) else Inl RangeError)"
  by (simp add: readTimestamp_def readUInt16LE_eq readUInt8_def bindE_def date_at_def)

lemma readFloatLE_eq:
  "readFloatLE buffer offset =
     (if offset + 4 \<le> length buffer then Inr (float32_at buffer offset) else Inl RangeError)"
  by (simp add: readFloatLE_def float32_at_def word32_le)

section \<open>Values of numbers\<close>

lemma round_binary64_values:
  "round_binary64 0 = Some 0"
  "round_binary64 10 = Some 10"
  "round_binary64 (- 1) = Some (- 1)"
  "round_binary64 1200 = Some 1200"
  "round_binary64 (- 1696) = Some (- 1696)"
  "round_binary64 (1 / 10) = Some (3602879701896397 / 36028797018963968)"
  "round_binary64 (1200 * (3602879701896397 / 36028797018963968)) = Some 120"
  by code_simp+

text \<open>
  Two products that binary64 does not compute exactly, with an engine whose powers of ten
  are the nearest doubles: the SFLOAT word 0xF003 (mantissa 3, exponent -1) is worth
  0.30000000000000004 and not 3/10, and the weight of raw value 9160 is worth
  45.800000000000004 and not 229/5.
\<close>

lemma inexact_products:
  "number_value nearest_pow10 (sfloat_spec 0xF003) = Some (1351079888211149 / 4503599627370496)"
  "number_value nearest_pow10 (FMul (FNum 9160) (FLit (5 / 1000)))
     = Some (6445776966674023 / 140737488355328)"
  by code_simp+

text \<open>
  The weight of raw value 14500 is worth 72.5, and the Fahrenheit temperature of binary32
  pattern 0x42C53333 (98.5999984741211) is worth 36.9999991522895 in Celsius.
\<close>

lemma measurement_values:
  "number_value nearest_pow10 (FMul (FNum 14500) (FLit (5 / 1000))) = Some (145 / 2)"
  "number_value nearest_pow10
     (FDiv (FMul (FSub (Float32 0x42C53333) (FNum 32)) (FNum 5)) (FNum 9))
     = Some (5207286949842489 / 140737488355328)"
  by code_simp+

section \<open>SFLOAT decoding\<close>

text \<open>
  C1. For every 16-bit word stored little-endian, \<^verbatim>\<open>readSFloat\<close> returns the binary64
  product of the mantissa (the low 12 bits as a two's-complement integer) and
  \<^verbatim>\<open>Math.pow(10, exponent)\<close> (the exponent being the high 4 bits as a two's-complement
  integer), and advances the offset by two. The word 0x0960 has the mantissa bits 0x960,
  whose sign bit is set: its mantissa is -1696 and its exponent 0, and it decodes to
  -1696 on every engine. The word 0xF4B0 has mantissa 1200 and exponent -1, and decodes
  to 120 when \<^verbatim>\<open>Math.pow(10, -1)\<close> is the double nearest to one tenth.
\<close>

theorem readSFloat_decodes:
  "readSFloat (pre @ [ucast w, ucast (drop_bit 8 w)] @ post) (length pre)
     = Inr (sfloat_spec (w :: 16 word), length pre + 2)
   \<and> readSFloat [0x60, 0x09] 0 = Inr (decimal (- 1696) 0, 2)
   \<and> number_value pow10 (decimal (- 1696) 0) = Some (- 1696)
   \<and> readSFloat [0xB0, 0xF4] 0 = Inr (decimal 1200 (- 1), 2)
   \<and> (pow10 (- 1) = round_binary64 (1 / 10) \<longrightarrow>
        number_value pow10 (decimal 1200 (- 1)) = Some 120)"
proof (intro conjI impI)
  show "readSFloat (pre @ [ucast w, ucast (drop_bit 8 w)] @ post) (length pre)
     = Inr (sfloat_spec w, length pre + 2)"
    unfolding readSFloat_def readUInt16LE_at
    by (simp add: bindE_def uint_split_le16 sfloat_of_raw_spec)
  show "readSFloat [0x60, 0x09] 0 = Inr (decimal (- 1696) 0, 2)"
    by (simp add: readSFloat_def readUInt16LE_def bindE_def sfloat_of_raw_def decimal_def)
  show "number_value pow10 (decimal (- 1696) 0) = Some (- 1696)"
    by (simp add: decimal_def round_binary64_values)
  show "readSFloat [0xB0, 0xF4] 0 = Inr (decimal 1200 (- 1), 2)"
    by (simp add: readSFloat_def readUInt16LE_def bindE_def sfloat_of_raw_def decimal_def)
  assume a: "pow10 (- 1) = round_binary64 (1 / 10)"
  have f: "\<lfloor>- 1 :: rat\<rfloor> = - 1" by linarith
  have v: "number_value pow10 (decimal 1200 (- 1))
      = (case pow10 (- 1) of None \<Rightarrow> None | Some y \<Rightarrow> round_binary64 (1200 * y))"
    by (simp add: decimal_def round_binary64_values f)
  show "number_value pow10 (decimal 1200 (- 1)) = Some 120"
    by (simp only: v a round_binary64_values option.case)
qed

text \<open>
  The theorem at the word 0x1FFF (mantissa -1, exponent 1) and at an engine whose powers
  of ten are the nearest doubles.
\<close>

theorem readSFloat_decodes_witness:
  "readSFloat ([0x00] @ [0xff, 0x1f] @ [0xaa]) 1 = Inr (sfloat_spec 0x1fff, 3)
   \<and> sfloat_spec 0x1fff = decimal (- 1) 1
   \<and> nearest_pow10 (- 1) = round_binary64 (1 / 10)
   \<and> number_value nearest_pow10 (decimal 1200 (- 1)) = Some 120"
proof -
  have lo: "ucast (0x1fff :: 16 word) = (0xff :: 8 word)" by simp
  have hi: "ucast (drop_bit 8 (0x1fff :: 16 word)) = (0x1f :: 8 word)" by simp
  have len: "length [0x00 :: 8 word] = 1" "(1::nat) + 2 = 3" by simp_all
  have p: "nearest_pow10 (- 1) = round_binary64 (1 / 10)" by (simp add: nearest_pow10_def)
  note t = readSFloat_decodes [of "[0x00]" "0x1fff" "[0xaa]" nearest_pow10]
  from t have "readSFloat ([0x00] @ [ucast (0x1fff :: 16 word),
          ucast (drop_bit 8 (0x1fff :: 16 word))] @ [0xaa]) (length [0x00 :: 8 word])
        = Inr (sfloat_spec 0x1fff, length [0x00 :: 8 word] + 2)"
    by blast
  then have 1: "readSFloat ([0x00] @ [0xff, 0x1f] @ [0xaa]) 1 = Inr (sfloat_spec 0x1fff, 3)"
    unfolding lo hi len .
  have 2: "sfloat_spec 0x1fff = decimal (- 1) 1"
    by (simp add: sfloat_spec_def)
  from t p have 3: "number_value nearest_pow10 (decimal 1200 (- 1)) = Some 120" by blast
  from 1 2 p 3 show ?thesis by blast
qed

text \<open>
  The bytes 0x60 0x09 (the word 0x0960) decode to the product of -1696 and
  \<^verbatim>\<open>Math.pow(10, 0)\<close>, which is worth -1696 and not 2400.
\<close>

theorem readSFloat_0960_counterexample:
  "readSFloat [0x60, 0x09] 0 = Inr (decimal (- 1696) 0, 2)
   \<and> number_value nearest_pow10 (decimal (- 1696) 0) = Some (- 1696)
   \<and> number_value nearest_pow10 (decimal (- 1696) 0) \<noteq> Some 2400"
  by code_simp

section \<open>Advertisement decoding\<close>

lemma readUsers_encoded:
  "map index us = [i + 1..n] \<Longrightarrow> list_all valid_user us \<Longrightarrow>
   readUsers (pre @ concat (map encodeUser us) @ post) n i (length pre) acc = Inr (acc @ us)"
proof (induction us arbitrary: i pre acc)
  case Nil
  then have "\<not> i < n" by simp
  then show ?case by (subst readUsers.simps) simp
next
  case (Cons u us)
  have lt: "i < n"
  proof (rule ccontr)
    assume "\<not> i < n"
    then have "[i + 1..n] = []" by simp
    with Cons.prems(1) show False by simp
  qed
  then have up: "[i + 1..n] = (i + 1) # [i + 1 + 1..n]" by (simp add: upto_rec1)
  from Cons.prems(1) up have ix: "index u = i + 1"
    and rest: "map index us = [(i + 1) + 1..n]" by simp_all
  from Cons.prems(2) have vu: "valid_user u" and vs: "list_all valid_user us" by simp_all
  let ?pre' = "pre @ encodeUser u"
  let ?b = "pre @ concat (map encodeUser (u # us)) @ post"
  have len: "length ?pre' = length pre + 3" by (simp add: encodeUser_def)
  have r16: "readUInt16LE ?b (length pre) = Inr (lastSequenceNumber u)"
    using readUInt16LE_at [of pre "word_of_int (lastSequenceNumber u)"
        "word_of_int (drop_bit 8 (lastSequenceNumber u))"
        "word_of_int (numberOfRecords u) # concat (map encodeUser us) @ post"] vu
    by (simp add: encodeUser_def valid_user_def le16_of_int)
  have r8: "readUInt8 ?b (length pre + 2) = Inr (numberOfRecords u)"
    using readUInt8_at [of "pre @ [word_of_int (lastSequenceNumber u),
          word_of_int (drop_bit 8 (lastSequenceNumber u))]"
        "word_of_int (numberOfRecords u)" "concat (map encodeUser us) @ post"] vu
    by (simp add: encodeUser_def valid_user_def u8_of_int)
  have eq: "?b = ?pre' @ concat (map encodeUser us) @ post" by simp
  have u_eq: "\<lparr>index = i + 1, lastSequenceNumber = lastSequenceNumber u,
               numberOfRecords = numberOfRecords u\<rparr> = u"
    using ix by simp
  have "readUsers ?b n i (length pre) acc = readUsers ?b n (i + 1) (length pre + 3) (acc @ [u])"
    by (subst readUsers.simps) (simp only: lt if_True r16 r8 bindE_def sum.case u_eq)
  also have "\<dots> = readUsers (?pre' @ concat (map encodeUser us) @ post) n (i + 1)
                     (length ?pre') (acc @ [u])"
    unfolding eq len ..
  also have "\<dots> = Inr ((acc @ [u]) @ us)"
    by (rule Cons.IH [OF rest vs])
  finally show ?case by simp
qed

lemma flags_roundtrip:
  assumes "1 \<le> numberOfUsers info" "numberOfUsers info \<le> 4"
  shows "(uint (encodeFlags info) AND 8 \<noteq> 0) = pairable info"
    and "(uint (encodeFlags info) AND 4 \<noteq> 0) = timeNotConfigured info"
    and "(uint (encodeFlags info) AND 3) + 1 = numberOfUsers info"
proof -
  from assms have "numberOfUsers info = 1 \<or> numberOfUsers info = 2
      \<or> numberOfUsers info = 3 \<or> numberOfUsers info = 4"
    by arith
  then show "(uint (encodeFlags info) AND 8 \<noteq> 0) = pairable info"
    and "(uint (encodeFlags info) AND 4 \<noteq> 0) = timeNotConfigured info"
    and "(uint (encodeFlags info) AND 3) + 1 = numberOfUsers info"
    by (auto simp: encodeFlags_def)
qed

text \<open>
  C2. For every well-formed advertising payload (1 to 4 users with indices 1, 2, ... in
  layout order, sequence numbers in [0, 65535], record counts in [0, 255], the flags
  byte built from pairable, timeNotConfigured and the number of users minus one),
  decoding the encoded payload returns exactly the encoded fields, and logs nothing.
\<close>

theorem advertising_roundtrip:
  "valid_advertising info \<Longrightarrow>
   parseOmronManufacturerData (encodeAdvertising info) st = (Some info, st)"
proof -
  assume v: "valid_advertising info"
  then have n: "1 \<le> numberOfUsers info" "numberOfUsers info \<le> 4"
    and ix: "map index (users info) = [0 + 1..numberOfUsers info]"
    and us: "list_all valid_user (users info)"
    by (simp_all add: valid_advertising_def)
  let ?b = "encodeAdvertising info"
  have b: "?b = [0x0e, 0x02, 0x01, encodeFlags info] @ concat (map encodeUser (users info)) @ []"
    by (simp add: encodeAdvertising_def)
  have cid: "readUInt16LE ?b 0 = Inr OMRON_COMPANY_ID"
    by (simp add: encodeAdvertising_def readUInt16LE_def OMRON_COMPANY_ID_def)
  have ty: "readUInt8 ?b 2 = Inr 1"
    by (simp add: encodeAdvertising_def readUInt8_def)
  have fl: "readUInt8 ?b 3 = Inr (uint (encodeFlags info))"
    by (simp add: encodeAdvertising_def readUInt8_def)
  have l4: "length [0x0e, 0x02, 0x01, encodeFlags info] = 4" by simp
  have ru: "readUsers ?b (numberOfUsers info) 0 4 [] = Inr (users info)"
    using readUsers_encoded [OF ix us, of "[0x0e, 0x02, 0x01, encodeFlags info]" "[]" "[]"]
    unfolding b l4 by simp
  have "parseOmronManufacturerData_try ?b = Inr (Some info)"
    unfolding parseOmronManufacturerData_try_def cid ty fl
    by (simp add: bindE_def flags_roundtrip [OF n] ru del: One_nat_def)
  then show ?thesis by (simp add: parseOmronManufacturerData_def)
qed

text \<open>The theorem at a pairable device with two users.\<close>

theorem advertising_roundtrip_witness:
  "valid_advertising example_info
   \<and> encodeAdvertising example_info = [0x0e, 0x02, 0x01, 0x09, 0x05, 0x00, 0x03, 0x02, 0x01, 0x07]
   \<and> parseOmronManufacturerData (encodeAdvertising example_info) example_mounted
       = (Some example_info, example_mounted)"
proof -
  have v: "valid_advertising example_info"
    by (simp add: valid_advertising_def valid_user_def example_info_def upto_rec1)
  have e: "encodeAdvertising example_info
      = [0x0e, 0x02, 0x01, 0x09, 0x05, 0x00, 0x03, 0x02, 0x01, 0x07]"
    by (simp add: encodeAdvertising_def encodeUser_def encodeFlags_def example_info_def
        drop_bit_eq_div)
  from v e advertising_roundtrip [OF v, of example_mounted] show ?thesis by blast
qed

section \<open>What the operations leave alone\<close>

lemma addLog_fields [simp]:
  "devices (addLog m st) = devices st"
  "connectedDevice (addLog m st) = connectedDevice st"
  "connectionState (addLog m st) = connectionState st"
  "measurementData (addLog m st) = measurementData st"
  "managerRef (addLog m st) = managerRef st"
  "scanTimeoutRef (addLog m st) = scanTimeoutRef st"
  "subscriptionsRef (addLog m st) = subscriptionsRef st"
  "logLimit (addLog m st) = logLimit st"
  "requestMtu (addLog m st) = requestMtu st"
  "autoScanOnBluetoothOn (addLog m st) = autoScanOnBluetoothOn st"
  "calls (addLog m st) = calls st"
  by (simp_all add: addLog_def)

lemma last_addLog: "last (logs (addLog m st)) = m"
  by (simp add: addLog_def)

lemma call_fields [simp]:
  "devices (call c st) = devices st"
  "connectedDevice (call c st) = connectedDevice st"
  "connectionState (call c st) = connectionState st"
  "measurementData (call c st) = measurementData st"
  "managerRef (call c st) = managerRef st"
  "scanTimeoutRef (call c st) = scanTimeoutRef st"
  "subscriptionsRef (call c st) = subscriptionsRef st"
  "logLimit (call c st) = logLimit st"
  "requestMtu (call c st) = requestMtu st"
  "autoScanOnBluetoothOn (call c st) = autoScanOnBluetoothOn st"
  "logs (call c st) = logs st"
  "calls (call c st) = calls st @ [c]"
  by (simp_all add: call_def)

lemma removeAllSubscriptions_fields [simp]:
  "devices (removeAllSubscriptions st) = devices st"
  "connectedDevice (removeAllSubscriptions st) = connectedDevice st"
  "connectionState (removeAllSubscriptions st) = connectionState st"
  "measurementData (removeAllSubscriptions st) = measurementData st"
  "managerRef (removeAllSubscriptions st) = managerRef st"
  "logs (removeAllSubscriptions st) = logs st"
  "logLimit (removeAllSubscriptions st) = logLimit st"
  "requestMtu (removeAllSubscriptions st) = requestMtu st"
  "subscriptionsRef (removeAllSubscriptions st) = []"
  "calls (removeAllSubscriptions st) = calls st @ map Remove (subscriptionsRef st)"
  by (simp_all add: removeAllSubscriptions_def)

lemma stopScan_fields [simp]:
  "devices (stopScan st) = devices st"
  "connectedDevice (stopScan st) = connectedDevice st"
  "connectionState (stopScan st) = connectionState st"
  "measurementData (stopScan st) = measurementData st"
  "managerRef (stopScan st) = managerRef st"
  "logs (stopScan st) = logs st"
  "logLimit (stopScan st) = logLimit st"
  "requestMtu (stopScan st) = requestMtu st"
  "subscriptionsRef (stopScan st) = subscriptionsRef st"
  "calls (stopScan st) = calls st @ (if managerRef st then [StopDeviceScan] else [])"
  by (simp_all add: stopScan_def)

lemma example_session_eq:
  "example_session =
     \<lparr>devices = [], connectedDevice = Some example_monitor, connectionState = ''Connected'',
      measurementData = [example_reading_plain],
      logs = [ConnectingTo (Some ''BLEsmart_BP''), ConnectedTo (Some ''BLEsmart_BP''),
              ServicesDiscovered, NotificationsEnabled bp_uuid,
              RequestedNumberOfStoredRecords,
              ReceivedMeasurement example_reading_plain],
      managerRef = True, scanTimeoutRef = False,
      subscriptionsRef = [MeasurementMonitor bp_uuid, RACPMonitor racp_uuid],
      logLimit = 20, requestMtu = 150, autoScanOnBluetoothOn = False,
      calls = [StopDeviceScan, Remove StateChangeSubscription, ConnectToDevice ''AA:01'' 150,
               DiscoverAllServicesAndCharacteristics, Monitor bp_uuid, Monitor racp_uuid,
               WriteWithResponse racp_uuid [0x04, 0x01]]\<rparr>"
  by code_simp

lemma example_connecting_eq:
  "example_connecting =
     \<lparr>devices = [], connectedDevice = None, connectionState = ''Connecting...'',
      measurementData = [], logs = [ConnectingTo (Some ''BLEsmart_BP'')],
      managerRef = True, scanTimeoutRef = False, subscriptionsRef = [],
      logLimit = 20, requestMtu = 150, autoScanOnBluetoothOn = False,
      calls = [StopDeviceScan, Remove StateChangeSubscription, ConnectToDevice ''AA:01'' 150]\<rparr>"
  by code_simp

section \<open>The record access control point\<close>

lemma handleRACPResponse_count:
  assumes "4 \<le> length buffer" and "buffer ! 0 = 0x05"
  shows "handleRACPResponse ble buffer racpChar st =
     (let st1 = addLog (DeviceHasStoredRecords (u16_at buffer 2)) st
      in if u16_at buffer 2 > 0 then requestAllStoredRecords ble racpChar st1 else st1)"
proof -
  have op: "readUInt8 buffer 0 = Inr NUMBER_OF_STORED_RECORDS_RESPONSE"
    using assms by (simp add: readUInt8_def NUMBER_OF_STORED_RECORDS_RESPONSE_def)
  have n: "readUInt16LE buffer 2 = Inr (u16_at buffer 2)"
    using assms by (simp add: readUInt16LE_eq)
  show ?thesis
    by (simp add: handleRACPResponse_def handleRACPResponse_try_def op n bindE_def Let_def)
qed

lemma handleRACPResponse_short:
  assumes "1 \<le> length buffer" and "length buffer < 4" and "buffer ! 0 = 0x05"
  shows "handleRACPResponse ble buffer racpChar st = addLog RACPResponseError st"
proof -
  have op: "readUInt8 buffer 0 = Inr NUMBER_OF_STORED_RECORDS_RESPONSE"
    using assms by (simp add: readUInt8_def NUMBER_OF_STORED_RECORDS_RESPONSE_def)
  have n: "readUInt16LE buffer 2 = Inl RangeError"
    using assms by (simp add: readUInt16LE_eq)
  show ?thesis
    by (simp add: handleRACPResponse_def handleRACPResponse_try_def op n bindE_def)
qed

lemma notificationListener_measurementData:
  "measurementData (notificationListener uuid error v st) =
     measurementData st
       @ (if error then []
          else case v of
            None \<Rightarrow> []
          | Some b \<Rightarrow> (case parseMeasurementData_try uuid b of
                        Inr (Some data) \<Rightarrow> [data]
                      | _ \<Rightarrow> []))"
  by (simp add: notificationListener_def parseMeasurementData_def
      split: option.splits sum.splits)

text \<open>
  C3. When an indication with opcode 0x05 arrives, the handler reads the little-endian
  16-bit record count at offset 2 (an indication of fewer than four bytes has no count:
  the read throws, the error is logged and nothing is sent). If the count is greater
  than 0 it makes exactly one call of the library, a write to the control point of the
  two bytes 0x01 (report stored records) 0x01 (all records). If the count is 0 it issues
  no request and its only effect is the log line. There is no completion: the handler
  leaves the accumulated measurements as they were, whatever the count, and a measurement
  notification that arrives afterwards is appended as it would have been before.
\<close>

theorem count_response_requests_records:
  assumes "1 \<le> length buffer" and "buffer ! 0 = 0x05"
  shows "(length buffer < 4 \<longrightarrow>
            handleRACPResponse ble buffer racpChar st = addLog RACPResponseError st)
       \<and> (4 \<le> length buffer \<and> 0 < u16_at buffer 2 \<longrightarrow>
            handleRACPResponse ble buffer racpChar st
              = addLog (if write_ok ble then RequestedAllStoredRecords
                        else FailedToRequestRecords)
                  (call (WriteWithResponse racpChar [0x01, 0x01])
                     (addLog (DeviceHasStoredRecords (u16_at buffer 2)) st)))
       \<and> (4 \<le> length buffer \<and> u16_at buffer 2 = 0 \<longrightarrow>
            handleRACPResponse ble buffer racpChar st = addLog (DeviceHasStoredRecords 0) st)
       \<and> calls (handleRACPResponse ble buffer racpChar st) =
           calls st @ (if 4 \<le> length buffer \<and> 0 < u16_at buffer 2
                       then [WriteWithResponse racpChar [0x01, 0x01]] else [])
       \<and> measurementData (handleRACPResponse ble buffer racpChar st) = measurementData st
       \<and> measurementData
            (notificationListener uuid error v (handleRACPResponse ble buffer racpChar st))
           = measurementData (notificationListener uuid error v st)"
proof (cases "length buffer < 4")
  case True
  note h = handleRACPResponse_short [OF assms(1) True assms(2)]
  show ?thesis
    using True by (simp add: h notificationListener_measurementData)
next
  case False
  then have l: "4 \<le> length buffer" by simp
  have nonneg: "0 \<le> u16_at buffer 2" by (simp add: u16_at_def)
  note h = handleRACPResponse_count [OF l assms(2)]
  show ?thesis
  proof (cases "0 < u16_at buffer 2")
    case True
    then show ?thesis
      using l
      by (simp add: h Let_def requestAllStoredRecords_def REPORT_STORED_RECORDS_def
          ALL_RECORDS_def notificationListener_measurementData)
  next
    case False
    with nonneg have z: "u16_at buffer 2 = 0" by simp
    show ?thesis
      using l by (simp add: h z notificationListener_measurementData)
  qed
qed

text \<open>
  The theorem at a count of 3, at a count of 0 and at an indication cut after two bytes,
  in a running session.
\<close>

theorem count_response_requests_records_witness:
  "1 \<le> length [0x05, 0x00, 0x03, 0x00 :: 8 word]
   \<and> [0x05, 0x00, 0x03, 0x00 :: 8 word] ! 0 = 0x05
   \<and> u16_at [0x05, 0x00, 0x03, 0x00] 2 = 3
   \<and> calls (handleRACPResponse example_answers [0x05, 0x00, 0x03, 0x00] racp_uuid
              example_session)
       = calls example_session @ [WriteWithResponse racp_uuid [0x01, 0x01]]
   \<and> u16_at [0x05, 0x00, 0x00, 0x00] 2 = 0
   \<and> handleRACPResponse example_answers [0x05, 0x00, 0x00, 0x00] racp_uuid example_session
       = addLog (DeviceHasStoredRecords 0) example_session
   \<and> handleRACPResponse example_answers [0x05, 0x00] racp_uuid example_session
       = addLog RACPResponseError example_session"
proof -
  have l3: "1 \<le> length [0x05, 0x00, 0x03, 0x00 :: 8 word]"
    and o3: "[0x05, 0x00, 0x03, 0x00 :: 8 word] ! 0 = 0x05"
    and l0: "1 \<le> length [0x05, 0x00, 0x00, 0x00 :: 8 word]"
    and o0: "[0x05, 0x00, 0x00, 0x00 :: 8 word] ! 0 = 0x05"
    and l2: "1 \<le> length [0x05, 0x00 :: 8 word]"
    and o2: "[0x05, 0x00 :: 8 word] ! 0 = 0x05"
    by simp_all
  have c3: "u16_at [0x05, 0x00, 0x03, 0x00] 2 = 3" by code_simp
  have c0: "u16_at [0x05, 0x00, 0x00, 0x00] 2 = 0" by code_simp
  from count_response_requests_records [OF l3 o3, of example_answers racp_uuid example_session]
  have 1: "calls (handleRACPResponse example_answers [0x05, 0x00, 0x03, 0x00] racp_uuid
              example_session)
       = calls example_session @ [WriteWithResponse racp_uuid [0x01, 0x01]]"
    by (simp add: c3)
  from count_response_requests_records [OF l0 o0, of example_answers racp_uuid example_session]
  have 2: "handleRACPResponse example_answers [0x05, 0x00, 0x00, 0x00] racp_uuid
        example_session = addLog (DeviceHasStoredRecords 0) example_session"
    by (simp add: c0)
  from count_response_requests_records [OF l2 o2, of example_answers racp_uuid example_session]
  have 3: "handleRACPResponse example_answers [0x05, 0x00] racp_uuid example_session
       = addLog RACPResponseError example_session"
    by simp
  from l3 o3 c3 1 c0 2 3 show ?thesis by blast
qed

text \<open>
  A session that holds one measurement receives a count of 0: the measurement is still
  there, so the session does not end with zero records, and it is not over, since the
  next notification adds a second measurement.
\<close>

theorem count_zero_counterexample:
  "measurementData example_session = [example_reading_plain]
   \<and> measurementData
        (handleRACPResponse example_answers [0x05, 0x00, 0x00, 0x00] racp_uuid example_session)
       = [example_reading_plain]
   \<and> measurementData
        (notificationListener bp_uuid False (Some example_bp_pulse)
           (handleRACPResponse example_answers [0x05, 0x00, 0x00, 0x00] racp_uuid
              example_session))
       = [example_reading_plain, example_reading_pulse]"
  by code_simp

section \<open>Disconnecting\<close>






section \<open>Connecting\<close>

lemma connectToDevice_begin_fields:
  "connectionState (connectToDevice_begin d st) = ''Connecting...''"
  "subscriptionsRef (connectToDevice_begin d st) = []"
  "measurementData (connectToDevice_begin d st) = []"
  "devices (connectToDevice_begin d st) = devices st"
  "connectedDevice (connectToDevice_begin d st) = connectedDevice st"
  "calls (connectToDevice_begin d st) =
     calls st @ (if managerRef st then [StopDeviceScan] else [])
       @ map Remove (subscriptionsRef st) @ [ConnectToDevice (device_id d) (requestMtu st)]"
  by (simp_all add: connectToDevice_begin_def Let_def)

lemma setupNotification_calls:
  "prefix (calls st) (calls (setupNotification ble uuid st))"
  by (simp add: setupNotification_def)

lemma fold_setupNotification_calls:
  "prefix (calls st)
     (calls (fold (\<lambda>uuid s. if isMeasurementCharacteristic uuid
                            then setupNotification ble uuid s else s) us st))"
proof (induction us arbitrary: st)
  case Nil
  then show ?case by simp
next
  case (Cons u us)
  show ?case
  proof (cases "isMeasurementCharacteristic u")
    case True
    have "prefix (calls st) (calls (setupNotification ble u st))"
      by (rule setupNotification_calls)
    also have "prefix \<dots> (calls (fold (\<lambda>uuid s. if isMeasurementCharacteristic uuid
                           then setupNotification ble uuid s else s) us
                           (setupNotification ble u st)))"
      by (rule Cons.IH)
    finally show ?thesis using True by simp
  next
    case False
    then show ?thesis using Cons.IH [of st] by simp
  qed
qed

lemma requestStoredRecords_calls:
  "prefix (calls st) (calls (requestStoredRecords ble st))"
  by (simp add: requestStoredRecords_def Let_def split: option.splits)

lemma setupDataTransfer_calls:
  "prefix (calls st) (calls (setupDataTransfer ble st))"
proof (cases "services_result ble")
  case None
  then show ?thesis by (simp add: setupDataTransfer_def)
next
  case (Some services)
  let ?s = "fold (\<lambda>uuid s. if isMeasurementCharacteristic uuid
                          then setupNotification ble uuid s else s) (concat services) st"
  have "prefix (calls st) (calls ?s)"
    by (rule fold_setupNotification_calls)
  also have "prefix \<dots> (calls (requestStoredRecords ble ?s))"
    by (rule requestStoredRecords_calls)
  finally show ?thesis using Some by (simp add: setupDataTransfer_def)
qed

lemma connectToDevice_resume_calls:
  "prefix (calls st) (calls (connectToDevice_resume ble d st))"
proof (cases "connect_result ble")
  case None
  then show ?thesis by (simp add: connectToDevice_resume_def)
next
  case (Some cd)
  show ?thesis
  proof (cases "discover_ok ble")
    case False
    then show ?thesis using Some by (simp add: connectToDevice_resume_def Let_def)
  next
    case True
    let ?s = "addLog ServicesDiscovered (call DiscoverAllServicesAndCharacteristics
        (addLog (ConnectedTo (name d))
           (st\<lparr>connectedDevice := Some cd, connectionState := ''Connected''\<rparr>)))"
    have "prefix (calls st) (calls ?s)" by simp
    also have "prefix \<dots> (calls (setupDataTransfer ble ?s))"
      by (rule setupDataTransfer_calls)
    finally show ?thesis using Some True by (simp add: connectToDevice_resume_def Let_def)
  qed
qed

text \<open>
  C5. \<^verbatim>\<open>connectToDevice\<close> does not look at the connection state. In every
  state of a mounted hook a connect attempt stops the scan, removes every subscription of
  the session in flight, clears the accumulated measurements, sets the state to
  Connecting and asks the library to connect: no attempt is rejected.
\<close>

theorem connect_not_guarded:
  assumes "managerRef st"
  shows "connectionState (connectToDevice_begin d st) = ''Connecting...''
       \<and> subscriptionsRef (connectToDevice_begin d st) = []
       \<and> measurementData (connectToDevice_begin d st) = []
       \<and> calls (connectToDevice_begin d st) =
           calls st @ [StopDeviceScan] @ map Remove (subscriptionsRef st)
             @ [ConnectToDevice (device_id d) (requestMtu st)]
       \<and> ConnectToDevice (device_id d) (requestMtu st) \<in> set (calls (connectToDevice ble d st))"
proof -
  have "prefix (calls (connectToDevice_begin d st)) (calls (connectToDevice ble d st))"
    using assms by (simp add: connectToDevice_def connectToDevice_resume_calls)
  then have "set (calls (connectToDevice_begin d st)) \<subseteq> set (calls (connectToDevice ble d st))"
    by (rule set_mono_prefix)
  then have "ConnectToDevice (device_id d) (requestMtu st)
      \<in> set (calls (connectToDevice ble d st))"
    by (auto simp: connectToDevice_begin_fields)
  then show ?thesis using assms by (simp add: connectToDevice_begin_fields)
qed

text \<open>The theorem at a running session and a second device.\<close>

theorem connect_not_guarded_witness:
  "managerRef example_session \<and> connectionState example_session = ''Connected''
   \<and> connectionState (connectToDevice_begin example_scale example_session) = ''Connecting...''
   \<and> subscriptionsRef (connectToDevice_begin example_scale example_session) = []
   \<and> ConnectToDevice ''BB:02'' 150
       \<in> set (calls (connectToDevice example_answers example_scale example_session))"
proof -
  have m: "managerRef example_session" and c: "connectionState example_session = ''Connected''"
    and r: "requestMtu example_session = 150"
    by (simp_all add: example_session_eq)
  have i: "device_id example_scale = ''BB:02''" by (simp add: example_scale_def)
  from connect_not_guarded [OF m, of example_scale example_answers] m c
  show ?thesis by (simp add: i r)
qed

text \<open>
  A connect attempt on a running session is not rejected: the library is asked to
  connect, the subscriptions of the session are gone, and when the new device cannot be
  reached the state of the session has become Connection Failed.
\<close>

theorem connect_while_connected_counterexample:
  "connectionState example_session = ''Connected''
   \<and> ConnectToDevice ''BB:02'' 150
       \<in> set (calls (connectToDevice example_unreachable example_scale example_session))
   \<and> subscriptionsRef (connectToDevice example_unreachable example_scale example_session) = []
   \<and> connectionState (connectToDevice example_unreachable example_scale example_session)
       = ''Connection Failed''
   \<and> connectToDevice example_unreachable example_scale example_session \<noteq> example_session"
  by code_simp

section \<open>Payloads the advertisement decoder does not accept\<close>

lemma readUsers_short:
  "i < n \<Longrightarrow> length buffer < offset + 3 * nat (n - i) \<Longrightarrow>
   readUsers buffer n i offset us = Inl RangeError"
proof (induction buffer n i offset us rule: readUsers.induct)
  case (1 buffer n i offset us)
  note lt = "1.prems"(1)
  show ?case
  proof (cases "length buffer < offset + 3")
    case True
    show ?thesis
      using True
      by (subst readUsers.simps) (simp add: lt bindE_def readUInt16LE_def readUInt8_def)
  next
    case False
    have n1: "nat (n - i) = Suc (nat (n - (i + 1)))" using lt by simp
    have eq: "offset + 3 + 3 * nat (n - (i + 1)) = offset + 3 * nat (n - i)"
      unfolding n1 by simp
    have more: "i + 1 < n"
    proof (rule ccontr)
      assume "\<not> i + 1 < n"
      then have "nat (n - (i + 1)) = 0" by simp
      with n1 have "nat (n - i) = 1" by simp
      with "1.prems"(2) False show False by simp
    qed
    have short: "length buffer < offset + 3 + 3 * nat (n - (i + 1))"
      using "1.prems"(2) unfolding eq .
    have ih: "readUsers buffer n (i + 1) (offset + 3)
        (us @ [\<lparr>index = i + 1, lastSequenceNumber = lsn, numberOfRecords = nrec\<rparr>])
        = Inl RangeError"
      for lsn nrec
      by (rule "1.IH" [OF lt more short])
    have r16: "readUInt16LE buffer offset
        = Inr (uint (buffer ! offset) OR push_bit 8 (uint (buffer ! (offset + 1))))"
      using False by (simp add: readUInt16LE_def)
    have r8: "readUInt8 buffer (offset + 2) = Inr (uint (buffer ! (offset + 2)))"
      using False by (simp add: readUInt8_def)
    show ?thesis
      by (subst readUsers.simps) (simp only: lt if_True r16 r8 bindE_def sum.case ih)
  qed
qed

lemma readUsers_long:
  "offset + 3 * nat (n - i) \<le> length buffer \<Longrightarrow> \<exists>r. readUsers buffer n i offset us = Inr r"
proof (induction buffer n i offset us rule: readUsers.induct)
  case (1 buffer n i offset us)
  show ?case
  proof (cases "i < n")
    case False
    then show ?thesis by (subst readUsers.simps) simp
  next
    case True
    have eq: "offset + 3 + 3 * nat (n - (i + 1)) = offset + 3 * nat (n - i)"
      using True by (simp add: nat_diff_distrib)
    then have len: "offset + 3 \<le> length buffer" using "1.prems" by arith
    have ih: "\<exists>r. readUsers buffer n (i + 1) (offset + 3)
        (us @ [\<lparr>index = i + 1, lastSequenceNumber = lsn, numberOfRecords = nrec\<rparr>]) = Inr r"
      for lsn nrec
      using "1.IH" [OF True] "1.prems" eq by simp
    show ?thesis
      using len
      by (subst readUsers.simps) (simp add: True bindE_def readUInt16LE_def readUInt8_def ih)
  qed
qed

lemma header_reads:
  assumes "3 \<le> length buffer"
  shows "readUInt16LE buffer 0 = Inr (u16_at buffer 0)"
    and "readUInt8 buffer 2 = Inr (uint (buffer ! 2))"
  using assms by (simp_all add: readUInt16LE_eq readUInt8_def)

lemma uint_eq_1_iff: "uint (b :: 8 word) = 1 \<longleftrightarrow> b = 1"
  by (metis uint_1 word_uint_eq_iff)

lemma parse_try_not_omron:
  assumes "not_omron_payload buffer"
  shows "parseOmronManufacturerData_try buffer = Inr None"
proof -
  from assms have len: "3 \<le> length buffer" and h: "\<not> omron_header buffer"
    by (simp_all add: not_omron_payload_def)
  from h show ?thesis
    unfolding parseOmronManufacturerData_try_def header_reads [OF len]
    by (auto simp: bindE_def omron_header_def OMRON_COMPANY_ID_def uint_eq_1_iff)
qed

lemma users_count: "nat ((uint (b :: 8 word) AND 3) + 1) = unat (b AND 3) + 1"
proof -
  have "uint b AND 3 = uint (b AND 3)" by (simp add: uint_and)
  then show ?thesis by (simp add: nat_add_distrib)
qed

lemma parse_try_truncated:
  assumes "truncated_payload buffer"
  shows "parseOmronManufacturerData_try buffer = Inl RangeError"
proof (cases "length buffer < 3")
  case True
  then show ?thesis
    by (auto simp: parseOmronManufacturerData_try_def bindE_def readUInt16LE_def readUInt8_def)
next
  case False
  then have len: "3 \<le> length buffer" by simp
  from assms False have h: "omron_header buffer"
    and short: "length buffer < 4 \<or> length buffer < 4 + 3 * (unat (buffer ! 3 AND 3) + 1)"
    by (simp_all add: truncated_payload_def)
  from h have cid: "u16_at buffer 0 = OMRON_COMPANY_ID" and ty: "uint (buffer ! 2) = 1"
    by (simp_all add: omron_header_def OMRON_COMPANY_ID_def)
  show ?thesis
  proof (cases "length buffer < 4")
    case True
    then show ?thesis
      unfolding parseOmronManufacturerData_try_def header_reads [OF len] cid ty
      by (simp add: bindE_def readUInt8_def)
  next
    case four: False
    with short have s: "length buffer < 4 + 3 * nat ((uint (buffer ! 3) AND 3) + 1 - 0)"
      by (simp add: users_count)
    have pos: "0 < (uint (buffer ! 3) AND 3) + 1"
      by (simp add: add_pos_nonneg)
    have fl: "readUInt8 buffer 3 = Inr (uint (buffer ! 3))"
      using four by (simp add: readUInt8_def)
    show ?thesis
      unfolding parseOmronManufacturerData_try_def header_reads [OF len] cid ty fl
      by (simp add: bindE_def readUsers_short [OF pos s])
  qed
qed

lemma parse_try_complete:
  assumes "\<not> truncated_payload buffer" and "\<not> not_omron_payload buffer"
  shows "\<exists>info. parseOmronManufacturerData_try buffer = Inr (Some info)"
proof -
  from assms have len: "3 \<le> length buffer" and h: "omron_header buffer"
    by (auto simp: truncated_payload_def not_omron_payload_def)
  with assms(1) have four: "4 \<le> length buffer"
    and long: "4 + 3 * nat ((uint (buffer ! 3) AND 3) + 1 - 0) \<le> length buffer"
    by (simp_all add: truncated_payload_def users_count)
  from h have cid: "u16_at buffer 0 = OMRON_COMPANY_ID" and ty: "uint (buffer ! 2) = 1"
    by (simp_all add: omron_header_def OMRON_COMPANY_ID_def)
  have fl: "readUInt8 buffer 3 = Inr (uint (buffer ! 3))"
    using four by (simp add: readUInt8_def)
  from readUsers_long [OF long, of "[]"]
  obtain us where us: "readUsers buffer ((uint (buffer ! 3) AND 3) + 1) 0 4 [] = Inr us"
    by blast
  show ?thesis
    unfolding parseOmronManufacturerData_try_def header_reads [OF len] cid ty fl
    by (simp add: bindE_def us)
qed

section \<open>The scan listener\<close>

lemma scanListener_thrown:
  assumes "manufacturerData d = Some md" and "parseOmronManufacturerData_try md = Inl e"
  shows "scanListener False (Some d) st = addLog ParseError st"
  using assms by (simp add: scanListener_def parseOmronManufacturerData_def)

lemma scanListener_null:
  assumes "manufacturerData d = Some md" and "parseOmronManufacturerData_try md = Inr None"
  shows "scanListener False (Some d) st = st"
  using assms by (simp add: scanListener_def parseOmronManufacturerData_def)

lemma find_registry:
  "find (\<lambda>x. device_id (device x) = i) (devices st) = None \<longleftrightarrow> i \<notin> set (registry_ids st)"
proof -
  have "i \<in> set (registry_ids st) \<longleftrightarrow> (\<exists>x \<in> set (devices st). device_id (device x) = i)"
    unfolding registry_ids_def by (simp add: image_iff) blast
  then show ?thesis by (auto simp: find_None_iff)
qed

lemma scanListener_parsed:
  assumes "manufacturerData d = Some md"
    and "parseOmronManufacturerData_try md = Inr (Some parsed)"
  shows "scanListener False (Some d) st =
     (if device_id d \<in> set (registry_ids st) then st
      else (addLog (FoundOmronDevice (name d)) st)
             \<lparr>devices := devices st @ [\<lparr>device = d, advertising = parsed\<rparr>]\<rparr>)"
proof (cases "find (\<lambda>x. device_id (device x) = device_id d) (devices st)")
  case None
  then have "device_id d \<notin> set (registry_ids st)" by (simp add: find_registry)
  then show ?thesis using assms None
    by (simp add: scanListener_def parseOmronManufacturerData_def)
next
  case (Some x)
  then have "device_id d \<in> set (registry_ids st)"
    using find_registry [of "device_id d" st] by simp
  then show ?thesis using assms Some
    by (simp add: scanListener_def parseOmronManufacturerData_def)
qed

text \<open>
  C7. The advertisement decoder returns for every payload. A payload too
  short for the reads it calls for (fewer than three bytes, or Omron's header followed by
  fewer bytes than the flags byte and the user slots it announces) gives no result, the
  parse error is logged and nothing is raised, and the scan listener leaves the registry
  as it was. A payload of at least three bytes that does not carry Omron's company
  identifier and type byte gives no result and leaves the whole state, the log included,
  as it was. Every other payload decodes.
\<close>

theorem advertisement_decoder_total:
  "(truncated_payload buffer \<longrightarrow>
      parseOmronManufacturerData buffer st = (None, addLog ParseError st) \<and>
      (manufacturerData d = Some buffer \<longrightarrow>
         scanListener False (Some d) st = addLog ParseError st \<and>
         devices (scanListener False (Some d) st) = devices st \<and>
         last (logs (scanListener False (Some d) st)) = ParseError))
   \<and> (not_omron_payload buffer \<longrightarrow>
        parseOmronManufacturerData buffer st = (None, st) \<and>
        (manufacturerData d = Some buffer \<longrightarrow> scanListener False (Some d) st = st))
   \<and> (\<not> truncated_payload buffer \<and> \<not> not_omron_payload buffer \<longrightarrow>
        (\<exists>info. parseOmronManufacturerData buffer st = (Some info, st)))"
proof (intro conjI impI)
  assume t: "truncated_payload buffer"
  note e = parse_try_truncated [OF t]
  show "parseOmronManufacturerData buffer st = (None, addLog ParseError st)"
    by (simp add: parseOmronManufacturerData_def e)
  assume m: "manufacturerData d = Some buffer"
  show l: "scanListener False (Some d) st = addLog ParseError st"
    by (rule scanListener_thrown [OF m e])
  show "devices (scanListener False (Some d) st) = devices st" by (simp add: l)
  show "last (logs (scanListener False (Some d) st)) = ParseError" by (simp add: l last_addLog)
next
  assume n: "not_omron_payload buffer"
  note e = parse_try_not_omron [OF n]
  show "parseOmronManufacturerData buffer st = (None, st)"
    by (simp add: parseOmronManufacturerData_def e)
  assume m: "manufacturerData d = Some buffer"
  show "scanListener False (Some d) st = st"
    by (rule scanListener_null [OF m e])
next
  assume "\<not> truncated_payload buffer \<and> \<not> not_omron_payload buffer"
  then obtain info where "parseOmronManufacturerData_try buffer = Inr (Some info)"
    using parse_try_complete by blast
  then show "\<exists>info. parseOmronManufacturerData buffer st = (Some info, st)"
    by (simp add: parseOmronManufacturerData_def)
qed

text \<open>
  The theorem at a payload that announces two users and carries one slot, at the beacon
  of another vendor, and at the payload of the monitor.
\<close>

theorem advertisement_decoder_total_witness:
  "truncated_payload [0x0e, 0x02, 0x01, 0x01, 0x05, 0x00, 0x03]
   \<and> manufacturerData example_truncated = Some [0x0e, 0x02, 0x01, 0x01, 0x05, 0x00, 0x03]
   \<and> devices (scanListener False (Some example_truncated) example_mounted)
       = devices example_mounted
   \<and> last (logs (scanListener False (Some example_truncated) example_mounted)) = ParseError
   \<and> not_omron_payload [0x4c, 0x00, 0x02, 0x15]
   \<and> manufacturerData example_beacon = Some [0x4c, 0x00, 0x02, 0x15]
   \<and> scanListener False (Some example_beacon) example_mounted = example_mounted
   \<and> \<not> truncated_payload [0x0e, 0x02, 0x01, 0x08, 0x05, 0x00, 0x03]
   \<and> \<not> not_omron_payload [0x0e, 0x02, 0x01, 0x08, 0x05, 0x00, 0x03]
   \<and> (\<exists>info. parseOmronManufacturerData [0x0e, 0x02, 0x01, 0x08, 0x05, 0x00, 0x03]
                 example_mounted = (Some info, example_mounted))"
proof -
  have t: "truncated_payload [0x0e, 0x02, 0x01, 0x01, 0x05, 0x00, 0x03]" by code_simp
  have mt: "manufacturerData example_truncated = Some [0x0e, 0x02, 0x01, 0x01, 0x05, 0x00, 0x03]"
    by (simp add: example_truncated_def)
  have n: "not_omron_payload [0x4c, 0x00, 0x02, 0x15]" by code_simp
  have mn: "manufacturerData example_beacon = Some [0x4c, 0x00, 0x02, 0x15]"
    by (simp add: example_beacon_def)
  have o: "\<not> truncated_payload [0x0e, 0x02, 0x01, 0x08, 0x05, 0x00, 0x03]"
    "\<not> not_omron_payload [0x0e, 0x02, 0x01, 0x08, 0x05, 0x00, 0x03]"
    by code_simp+
  from advertisement_decoder_total [of "[0x0e, 0x02, 0x01, 0x01, 0x05, 0x00, 0x03]"
      example_mounted example_truncated]
    advertisement_decoder_total [of "[0x4c, 0x00, 0x02, 0x15]" example_mounted example_beacon]
    advertisement_decoder_total [of "[0x0e, 0x02, 0x01, 0x08, 0x05, 0x00, 0x03]" example_mounted]
    t mt n mn o
  show ?thesis by blast
qed

text \<open>
  The beacon of another vendor gives no result, and nothing is logged: the log of the
  freshly mounted hook is still empty after the listener has run.
\<close>

theorem silent_rejection_counterexample:
  "parseOmronManufacturerData [0x4c, 0x00, 0x02, 0x15] example_mounted = (None, example_mounted)
   \<and> logs example_mounted = []
   \<and> logs (scanListener False (Some example_beacon) example_mounted) = []"
  by code_simp

section \<open>The device registry\<close>

lemma scanListener_distinct:
  assumes "distinct (registry_ids st)"
  shows "distinct (registry_ids (scanListener error dev st))"
proof (cases "error \<or> dev = None")
  case True
  then show ?thesis using assms by (auto simp: scanListener_def registry_ids_def)
next
  case False
  then obtain d where d: "dev = Some d" and e: "\<not> error" by auto
  show ?thesis
  proof (cases "manufacturerData d")
    case None
    then show ?thesis using assms d e by (simp add: scanListener_def)
  next
    case md: (Some md)
    show ?thesis
    proof (cases "parseOmronManufacturerData_try md")
      case (Inl err)
      then show ?thesis
        using assms d e scanListener_thrown [OF md Inl, of st] by (simp add: registry_ids_def)
    next
      case (Inr r)
      show ?thesis
      proof (cases r)
        case None
        then show ?thesis
          using assms d e Inr scanListener_null [OF md, of st] by simp
      next
        case (Some parsed)
        with Inr have p: "parseOmronManufacturerData_try md = Inr (Some parsed)" by simp
        show ?thesis
          using assms d e scanListener_parsed [OF md p, of st]
          by (auto simp: registry_ids_def)
      qed
    qed
  qed
qed

lemma scanDevices_devices:
  "devices (scanDevices st) = (if managerRef st then [] else devices st)"
  by (simp add: scanDevices_def Let_def)

lemma setupNotification_devices [simp]:
  "devices (setupNotification ble uuid st) = devices st"
  by (simp add: setupNotification_def)

lemma fold_setupNotification_devices [simp]:
  "devices (fold (\<lambda>uuid s. if isMeasurementCharacteristic uuid
                           then setupNotification ble uuid s else s) us st) = devices st"
  by (induction us arbitrary: st) simp_all

lemma requestStoredRecords_devices [simp]:
  "devices (requestStoredRecords ble st) = devices st"
  by (simp add: requestStoredRecords_def Let_def split: option.splits)

lemma setupDataTransfer_devices [simp]:
  "devices (setupDataTransfer ble st) = devices st"
  by (simp add: setupDataTransfer_def split: option.splits)

lemma connectToDevice_resume_devices [simp]:
  "devices (connectToDevice_resume ble d st) = devices st"
  by (simp add: connectToDevice_resume_def Let_def split: option.splits)

lemma disconnect_devices [simp]: "devices (disconnect ble st) = devices st"
  by (simp add: disconnect_def disconnect_try_def Let_def split: option.splits)

lemma notificationListener_devices [simp]:
  "devices (notificationListener uuid error v st) = devices st"
  by (simp add: notificationListener_def parseMeasurementData_def
      split: option.splits sum.splits prod.splits)

lemma requestAllStoredRecords_devices [simp]:
  "devices (requestAllStoredRecords ble racpChar st) = devices st"
  by (simp add: requestAllStoredRecords_def Let_def)

lemma handleRACPResponse_devices [simp]:
  "devices (handleRACPResponse ble b racpChar st) = devices st"
  by (auto simp: handleRACPResponse_def handleRACPResponse_try_def bindE_def Let_def
      split: sum.splits if_splits)

lemma racpListener_devices [simp]:
  "devices (racpListener ble racpChar error v st) = devices st"
  by (simp add: racpListener_def split: option.splits)

lemma unmount_devices [simp]: "devices (unmount st) = devices st"
  by (simp add: unmount_def Let_def)

lemma step_distinct:
  assumes "distinct (registry_ids st)"
  shows "distinct (registry_ids (step ev st))"
proof (cases ev)
  case (ScanListener error dev)
  then show ?thesis using scanListener_distinct [OF assms] by simp
next
  case ScanDevices
  then show ?thesis using assms by (simp add: registry_ids_def scanDevices_devices)
next
  case (StateChange s)
  then show ?thesis using assms
    by (simp add: registry_ids_def stateChangeListener_def scanDevices_devices)
next
  case ScanTimeout
  then show ?thesis using assms by (simp add: registry_ids_def scanTimeout_def)
next
  case (ConnectToDeviceBegin d)
  then show ?thesis using assms by (simp add: registry_ids_def connectToDevice_begin_fields)
qed (use assms in \<open>simp_all add: registry_ids_def\<close>)

lemma run_distinct:
  "distinct (registry_ids st) \<Longrightarrow> distinct (registry_ids (run evs st))"
  unfolding run_def by (induction evs arbitrary: st) (simp_all add: step_distinct)

text \<open>
  C6. The device registry never holds two entries with the same id, whatever
  happens to a mounted hook. A device is added at the end of the registry when its
  advertisement decodes and its id is not yet there; when an advertisement with an id
  already in the registry is sighted again the registry is left as it is (the entry is
  neither duplicated nor updated); the registry is emptied when a new scan begins.
\<close>

theorem registry_never_duplicates:
  "distinct (registry_ids (run evs (mount limit mtu autoScan)))
   \<and> (managerRef st \<longrightarrow> devices (scanDevices st) = [])
   \<and> (manufacturerData d = Some md \<and> parseOmronManufacturerData_try md = Inr (Some parsed) \<longrightarrow>
        devices (scanListener False (Some d) st) =
          (if device_id d \<in> set (registry_ids st) then devices st
           else devices st @ [\<lparr>device = d, advertising = parsed\<rparr>]))"
proof (intro conjI impI)
  have "distinct (registry_ids (mount limit mtu autoScan))"
    by (simp add: registry_ids_def mount_def)
  then show "distinct (registry_ids (run evs (mount limit mtu autoScan)))"
    by (rule run_distinct)
next
  assume "managerRef st"
  then show "devices (scanDevices st) = []" by (simp add: scanDevices_devices)
next
  assume "manufacturerData d = Some md \<and> parseOmronManufacturerData_try md = Inr (Some parsed)"
  then have m: "manufacturerData d = Some md"
    and p: "parseOmronManufacturerData_try md = Inr (Some parsed)" by simp_all
  show "devices (scanListener False (Some d) st) =
          (if device_id d \<in> set (registry_ids st) then devices st
           else devices st @ [\<lparr>device = d, advertising = parsed\<rparr>])"
    by (simp add: scanListener_parsed [OF m p])
qed

text \<open>
  The theorem at a scan that sights the monitor twice: one entry, and a new scan empties
  the registry.
\<close>

theorem registry_never_duplicates_witness:
  "distinct (registry_ids (run example_scan (mount 20 150 False)))
   \<and> registry_ids (run example_scan (mount 20 150 False)) = [''AA:01'']
   \<and> managerRef (run example_scan example_mounted)
   \<and> devices (scanDevices (run example_scan example_mounted)) = []
   \<and> manufacturerData example_monitor = Some [0x0e, 0x02, 0x01, 0x08, 0x05, 0x00, 0x03]
   \<and> parseOmronManufacturerData_try [0x0e, 0x02, 0x01, 0x08, 0x05, 0x00, 0x03]
       = Inr (Some example_monitor_info)
   \<and> devices (scanListener False (Some example_monitor) example_mounted)
       = [\<lparr>device = example_monitor, advertising = example_monitor_info\<rparr>]"
proof -
  have r: "registry_ids (run example_scan (mount 20 150 False)) = [''AA:01'']" by code_simp
  have m: "managerRef (run example_scan example_mounted)" by code_simp
  have d: "manufacturerData example_monitor = Some [0x0e, 0x02, 0x01, 0x08, 0x05, 0x00, 0x03]"
    by (simp add: example_monitor_def)
  have p: "parseOmronManufacturerData_try [0x0e, 0x02, 0x01, 0x08, 0x05, 0x00, 0x03]
       = Inr (Some example_monitor_info)"
    by code_simp
  have e: "devices example_mounted = []" "registry_ids example_mounted = []"
    by (simp_all add: example_mounted_def mount_def registry_ids_def)
  from registry_never_duplicates [of example_scan 20 150 False
      "run example_scan example_mounted" example_monitor
      "[0x0e, 0x02, 0x01, 0x08, 0x05, 0x00, 0x03]" example_monitor_info]
  have 1: "distinct (registry_ids (run example_scan (mount 20 150 False)))"
    and 2: "devices (scanDevices (run example_scan example_mounted)) = []"
    using m by blast+
  from registry_never_duplicates [of example_scan 20 150 False
      example_mounted example_monitor
      "[0x0e, 0x02, 0x01, 0x08, 0x05, 0x00, 0x03]" example_monitor_info] d p
  have 3: "devices (scanListener False (Some example_monitor) example_mounted)
       = [\<lparr>device = example_monitor, advertising = example_monitor_info\<rparr>]"
    by (simp add: e)
  from 1 r m 2 d p 3 show ?thesis by blast
qed

text \<open>
  The monitor is sighted with 3 stored records and then again with 4: the later payload
  decodes, and the registry still holds what the first one said.
\<close>

theorem resighting_counterexample:
  "parseOmronManufacturerData_try [0x0e, 0x02, 0x01, 0x08, 0x06, 0x00, 0x04]
     = Inr (Some example_monitor_later_info)
   \<and> devices (run example_scan example_mounted)
       = [\<lparr>device = example_monitor, advertising = example_monitor_info\<rparr>]
   \<and> example_monitor_info \<noteq> example_monitor_later_info"
  by code_simp

section \<open>Measurement decoding\<close>

lemma parseBloodPressureData_eq:
  "parseBloodPressureData buffer =
     (if length buffer < 7 + (if bit (buffer ! 0) 1 then 7 else 0)
                           + (if bit (buffer ! 0) 2 then 2 else 0)
      then Inl RangeError
      else Inr (BloodPressure (sfloat_at buffer 1) (sfloat_at buffer 3) (sfloat_at buffer 5)
             (if bit (buffer ! 0) 2
              then Some (sfloat_at buffer (if bit (buffer ! 0) 1 then 14 else 7)) else None)
             (if bit (buffer ! 0) 1 then date_at buffer 7 else Now) MmHg))"
  by (simp add: parseBloodPressureData_def readUInt8_def readSFloat_eq readTimestamp_eq
      bindE_def flag_bits8 del: One_nat_def)

lemma parseBodyCompositionData_eq:
  "parseBodyCompositionData buffer =
     (if length buffer < 2 + (if bit (buffer ! 0) 1 then 2 else 0)
                           + (if bit (buffer ! 0) 5 then 2 else 0)
      then Inl RangeError
      else Inr (BodyComposition Now
             (if bit (buffer ! 0) 1 then Some (FDiv (FNum (u16_at buffer 2)) (FNum 10))
              else None)
             (if bit (buffer ! 0) 5
              then Some (FDiv (FNum (u16_at buffer (if bit (buffer ! 0) 1 then 4 else 2)))
                           (FNum 10))
              else None)))"
  by (simp add: parseBodyCompositionData_def readUInt16LE_eq bindE_def u16_at_def [of buffer 0]
      flag_bits16 del: One_nat_def)

text \<open>
  C8. In every decoded measurement an optional field is present exactly when its flag bit
  is set in the payload: the pulse of a blood pressure iff bit 2 (0x04) of the flags byte,
  the body-fat percentage iff bit 1 (0x02) of the body-composition flags, the muscle mass
  iff bit 5 (0x20). The fields are read in ascending bit order: the pulse is the SFLOAT
  after the three pressures and the timestamp if there is one (offset 14, else 7), the
  body fat is the 16-bit value at offset 2 divided by ten, the muscle mass the next 16-bit
  value (offset 4 if there is a body fat, else 2) divided by ten. The two decoders are
  given in full: a payload decodes exactly when it holds the bytes of the fixed part and
  of every field its flags announce.
\<close>

theorem optional_fields_follow_flags:
  "parseBloodPressureData buffer =
     (if length buffer < 7 + (if bit (buffer ! 0) 1 then 7 else 0)
                           + (if bit (buffer ! 0) 2 then 2 else 0)
      then Inl RangeError
      else Inr (BloodPressure (sfloat_at buffer 1) (sfloat_at buffer 3) (sfloat_at buffer 5)
             (if bit (buffer ! 0) 2
              then Some (sfloat_at buffer (if bit (buffer ! 0) 1 then 14 else 7)) else None)
             (if bit (buffer ! 0) 1 then date_at buffer 7 else Now) MmHg))
   \<and> parseBodyCompositionData buffer =
     (if length buffer < 2 + (if bit (buffer ! 0) 1 then 2 else 0)
                           + (if bit (buffer ! 0) 5 then 2 else 0)
      then Inl RangeError
      else Inr (BodyComposition Now
             (if bit (buffer ! 0) 1 then Some (FDiv (FNum (u16_at buffer 2)) (FNum 10))
              else None)
             (if bit (buffer ! 0) 5
              then Some (FDiv (FNum (u16_at buffer (if bit (buffer ! 0) 1 then 4 else 2)))
                           (FNum 10))
              else None)))
   \<and> (parseBloodPressureData buffer = Inr m \<longrightarrow> (pulse m \<noteq> None \<longleftrightarrow> bit (buffer ! 0) 2))
   \<and> (parseBodyCompositionData buffer = Inr m \<longrightarrow>
        (bodyFatPercentage m \<noteq> None \<longleftrightarrow> bit (buffer ! 0) 1) \<and>
        (muscleMass m \<noteq> None \<longleftrightarrow> bit (buffer ! 0) 5))"
proof (intro conjI impI)
  show "parseBloodPressureData buffer =
     (if length buffer < 7 + (if bit (buffer ! 0) 1 then 7 else 0)
                           + (if bit (buffer ! 0) 2 then 2 else 0)
      then Inl RangeError
      else Inr (BloodPressure (sfloat_at buffer 1) (sfloat_at buffer 3) (sfloat_at buffer 5)
             (if bit (buffer ! 0) 2
              then Some (sfloat_at buffer (if bit (buffer ! 0) 1 then 14 else 7)) else None)
             (if bit (buffer ! 0) 1 then date_at buffer 7 else Now) MmHg))"
    by (rule parseBloodPressureData_eq)
  show "parseBodyCompositionData buffer =
     (if length buffer < 2 + (if bit (buffer ! 0) 1 then 2 else 0)
                           + (if bit (buffer ! 0) 5 then 2 else 0)
      then Inl RangeError
      else Inr (BodyComposition Now
             (if bit (buffer ! 0) 1 then Some (FDiv (FNum (u16_at buffer 2)) (FNum 10))
              else None)
             (if bit (buffer ! 0) 5
              then Some (FDiv (FNum (u16_at buffer (if bit (buffer ! 0) 1 then 4 else 2)))
                           (FNum 10))
              else None)))"
    by (rule parseBodyCompositionData_eq)
next
  assume p: "parseBloodPressureData buffer = Inr m"
  then have m: "m = BloodPressure (sfloat_at buffer 1) (sfloat_at buffer 3) (sfloat_at buffer 5)
             (if bit (buffer ! 0) 2
              then Some (sfloat_at buffer (if bit (buffer ! 0) 1 then 14 else 7)) else None)
             (if bit (buffer ! 0) 1 then date_at buffer 7 else Now) MmHg"
    unfolding parseBloodPressureData_eq by (simp split: if_splits)
  show "(pulse m \<noteq> None) = bit (buffer ! 0) 2"
    by (cases "bit (buffer ! 0) 2") (simp_all add: m)
next
  assume p: "parseBodyCompositionData buffer = Inr m"
  then have m: "m = BodyComposition Now
             (if bit (buffer ! 0) 1 then Some (FDiv (FNum (u16_at buffer 2)) (FNum 10))
              else None)
             (if bit (buffer ! 0) 5
              then Some (FDiv (FNum (u16_at buffer (if bit (buffer ! 0) 1 then 4 else 2)))
                           (FNum 10))
              else None)"
    unfolding parseBodyCompositionData_eq by (simp split: if_splits)
  show "(bodyFatPercentage m \<noteq> None) = bit (buffer ! 0) 1"
    by (cases "bit (buffer ! 0) 1") (simp_all add: m)
  show "(muscleMass m \<noteq> None) = bit (buffer ! 0) 5"
    by (cases "bit (buffer ! 0) 5") (simp_all add: m)
qed

text \<open>
  The theorem at a blood pressure with pulse, at one without, at a body composition with
  both optional fields, and at the latter cut before the muscle mass.
\<close>

theorem optional_fields_follow_flags_witness:
  "parseBloodPressureData example_bp_pulse = Inr example_reading_pulse
   \<and> bit (example_bp_pulse ! 0) 2
   \<and> pulse example_reading_pulse = Some (decimal 72 0)
   \<and> parseBloodPressureData example_bp_plain = Inr example_reading_plain
   \<and> \<not> bit (example_bp_plain ! 0) 2
   \<and> pulse example_reading_plain = None
   \<and> parseBodyCompositionData example_body
       = Inr (BodyComposition Now (Some (FDiv (FNum 250) (FNum 10)))
                (Some (FDiv (FNum 307) (FNum 10))))
   \<and> bit (example_body ! 0) 1 \<and> bit (example_body ! 0) 5
   \<and> parseBodyCompositionData (take 4 example_body) = Inl RangeError"
proof -
  have p1: "parseBloodPressureData example_bp_pulse = Inr example_reading_pulse"
    unfolding optional_fields_follow_flags [THEN conjunct1] by code_simp
  have p2: "parseBloodPressureData example_bp_plain = Inr example_reading_plain"
    unfolding optional_fields_follow_flags [THEN conjunct1] by code_simp
  have p3: "parseBodyCompositionData example_body
       = Inr (BodyComposition Now (Some (FDiv (FNum 250) (FNum 10)))
                (Some (FDiv (FNum 307) (FNum 10))))"
    unfolding optional_fields_follow_flags [THEN conjunct2, THEN conjunct1] by code_simp
  have p4: "parseBodyCompositionData (take 4 example_body) = Inl RangeError"
    unfolding optional_fields_follow_flags [THEN conjunct2, THEN conjunct1] by code_simp
  have v1: "pulse example_reading_pulse = Some (decimal 72 0)"
    and v2: "pulse example_reading_plain = None"
    by (simp_all add: example_reading_pulse_def example_reading_plain_def)
  from optional_fields_follow_flags [of example_bp_pulse example_reading_pulse] p1 v1
  have b1: "bit (example_bp_pulse ! 0) 2" by simp
  from optional_fields_follow_flags [of example_bp_plain example_reading_plain] p2 v2
  have b2: "\<not> bit (example_bp_plain ! 0) 2" by simp
  from optional_fields_follow_flags [of example_body
      "BodyComposition Now (Some (FDiv (FNum 250) (FNum 10)))
         (Some (FDiv (FNum 307) (FNum 10)))"] p3
  have b3: "bit (example_body ! 0) 1 \<and> bit (example_body ! 0) 5" by simp
  from p1 b1 v1 p2 b2 v2 p3 b3 p4 show ?thesis by blast
qed

text \<open>
  C9. For every temperature payload the decoder reads the flags in byte 0 and the four
  bytes after it as a little-endian binary32 value; it fails when these five bytes, or
  the seven bytes of a timestamp announced by bit 1, are not all there. When bit 0 of the
  flags is set the raw value is stored unchanged, when it is clear the stored value is
  ((raw - 32) * 5) / 9; the unit is always Celsius. The seven bytes at offset 5 are read
  as the timestamp iff bit 1 is set, and otherwise the timestamp is the time of capture.
\<close>

theorem temperature_decoding:
  "parseTemperatureData buffer =
     (if length buffer < 5 + (if bit (buffer ! 0) 1 then 7 else 0)
      then Inl RangeError
      else Inr (Temperature
             (if bit (buffer ! 0) 0 then float32_at buffer 1
              else FDiv (FMul (FSub (float32_at buffer 1) (FNum 32)) (FNum 5)) (FNum 9))
             (if bit (buffer ! 0) 1 then date_at buffer 5 else Now) Celsius))"
  by (simp add: parseTemperatureData_def readUInt8_def readFloatLE_eq readTimestamp_eq
      bindE_def flag_bits8 del: One_nat_def)

text \<open>
  The theorem at a Fahrenheit payload without timestamp, at a Celsius payload with one,
  and at the latter cut after the raw value.
\<close>

theorem temperature_decoding_witness:
  "parseTemperatureData example_fahrenheit
     = Inr (Temperature
              (FDiv (FMul (FSub (Float32 0x42C53333) (FNum 32)) (FNum 5)) (FNum 9)) Now Celsius)
   \<and> parseTemperatureData example_celsius
       = Inr (Temperature (Float32 0x42140000) (DateOf 2024 0 2 3 4 5) Celsius)
   \<and> parseTemperatureData (take 5 example_celsius) = Inl RangeError"
  unfolding temperature_decoding by code_simp

section \<open>The spot-check characteristic\<close>

lemma spot_check_includes:
  "includes_str OMRON_PLX_SPOT_CHECK (toUpperCase OMRON_PLX_SPOT_CHECK)"
  "\<not> includes_str OMRON_PLX_SPOT_CHECK BLOOD_PRESSURE_MEASUREMENT"
  "\<not> includes_str OMRON_PLX_SPOT_CHECK WEIGHT_MEASUREMENT"
  "\<not> includes_str OMRON_PLX_SPOT_CHECK TEMPERATURE_MEASUREMENT"
  "\<not> includes_str OMRON_PLX_SPOT_CHECK BODY_COMPOSITION_MEASUREMENT"
  "\<not> includes_str OMRON_PLX_SPOT_CHECK RECORD_ACCESS_CONTROL_POINT"
  by code_simp+

lemma spot_check_try:
  assumes "toUpperCase uuid = OMRON_PLX_SPOT_CHECK"
  shows "parseMeasurementData_try uuid buffer = Inr None"
  by (simp add: parseMeasurementData_try_def assms spot_check_includes)

lemma spot_check_subscribed:
  assumes "toUpperCase uuid = OMRON_PLX_SPOT_CHECK"
    and "services_result ble = Some [[uuid]]" and "monitor_ok ble uuid"
  shows "subscriptionsRef (setupDataTransfer ble st)
       = subscriptionsRef st @ [MeasurementMonitor uuid]"
proof -
  have m: "isMeasurementCharacteristic uuid"
    by (simp add: isMeasurementCharacteristic_def assms(1) spot_check_includes(1))
  show ?thesis
    by (simp add: setupDataTransfer_def requestStoredRecords_def setupNotification_def
        assms m spot_check_includes(6))
qed

text \<open>
  C10. Notifications on the vendor's spot-check characteristic never contribute a
  measurement. Its UUID, in either case of the letters, is matched by
  \<^verbatim>\<open>isMeasurementCharacteristic\<close>, so that a monitor is attached to it when the device
  exposes it; but no branch of \<^verbatim>\<open>parseMeasurementData\<close> matches it, so for every payload
  the result is absent, nothing is logged, and the notification handler leaves the state,
  and with it the accumulated measurements, as it was.
\<close>

theorem spot_check_never_contributes:
  assumes "toUpperCase uuid = OMRON_PLX_SPOT_CHECK"
  shows "isMeasurementCharacteristic uuid
       \<and> (services_result ble = Some [[uuid]] \<and> monitor_ok ble uuid \<longrightarrow>
            subscriptionsRef (setupDataTransfer ble st)
              = subscriptionsRef st @ [MeasurementMonitor uuid])
       \<and> parseMeasurementData uuid buffer st = (None, st)
       \<and> notificationListener uuid False (Some buffer) st = st
       \<and> measurementData (notificationListener uuid error v st) = measurementData st"
proof -
  have a: "isMeasurementCharacteristic uuid"
    by (simp add: isMeasurementCharacteristic_def assms spot_check_includes(1))
  have b: "parseMeasurementData uuid b st = (None, st)" for b
    by (simp add: parseMeasurementData_def spot_check_try [OF assms])
  have c: "notificationListener uuid False (Some buffer) st = st"
    by (simp add: notificationListener_def b)
  have d: "measurementData (notificationListener uuid error v st) = measurementData st"
    by (cases v) (simp_all add: notificationListener_def b)
  from a b c d spot_check_subscribed [OF assms] show ?thesis by blast
qed

text \<open>
  The theorem at the UUID in lower case, on a device that exposes only this
  characteristic, with a payload that would decode as a weight.
\<close>

theorem spot_check_never_contributes_witness:
  "toUpperCase spot_check_uuid = OMRON_PLX_SPOT_CHECK
   \<and> isMeasurementCharacteristic spot_check_uuid
   \<and> subscriptionsRef (setupDataTransfer example_spot_check_only example_connecting)
       = [MeasurementMonitor spot_check_uuid]
   \<and> parseMeasurementData spot_check_uuid [0x00, 0xa4, 0x38] example_session
       = (None, example_session)
   \<and> measurementData
        (notificationListener spot_check_uuid False (Some [0x00, 0xa4, 0x38]) example_session)
       = measurementData example_session"
proof -
  have h: "toUpperCase spot_check_uuid = OMRON_PLX_SPOT_CHECK" by code_simp
  have s: "services_result example_spot_check_only = Some [[spot_check_uuid]]"
    "monitor_ok example_spot_check_only spot_check_uuid"
    by (simp_all add: example_spot_check_only_def example_answers_def)
  have e: "subscriptionsRef example_connecting = []" by (simp add: example_connecting_eq)
  from spot_check_never_contributes [OF h, of example_spot_check_only example_connecting]
    s e
  have 1: "subscriptionsRef (setupDataTransfer example_spot_check_only example_connecting)
       = [MeasurementMonitor spot_check_uuid]"
    by simp
  from h 1 spot_check_never_contributes [OF h, of example_answers example_session
      "[0x00, 0xa4, 0x38]" False "Some [0x00, 0xa4, 0x38]"]
  show ?thesis by blast
qed

end
